theory Spec2Isabelle
  imports Complex_Main "HOL-Library.AList"
begin

text \<open>
  A verification development for the deepfake detection server: the analyze route with its
  upload validation, vendor calls, demo fallbacks and response shaping
  (\<open>routes/analyze\<close>), the shared file type table (\<open>shared/api\<close>), and the request
  validation and cleanup endpoints of \<open>createServer\<close>. The definitions come first, each
  named after the function of the source it embeds; the theorems follow.
\<close>

section \<open>Numbers, strings and JSON values\<close>

text \<open>
  The server is TypeScript. A JavaScript number is modelled as a \<^typ>\<open>real\<close>: every finite
  double is a real and the comparisons of the source are exact on doubles. The demo
  confidences are computed as the program computes them, in binary64: each decimal literal
  is the double nearest to it and each product and sum is rounded (\<open>double\<close>, \<open>fmul\<close>
  and \<open>fadd\<close> below). In the thresholds of the risk level, of the confidence category and
  of the flag \<open>isDeepfake\<close> a decimal literal such as \<open>0.8\<close> stands for the threshold the
  source writes, and the auxiliary sub-scores of a response, which no theorem evaluates,
  are exact expressions. NaN and the infinities are outside the model. Strings are
  \<^typ>\<open>string\<close>; the pictographs that open some messages are given by their UTF-8 bytes.
\<close>

datatype json =
    JUndefined
  | JNull
  | JBool bool
  | JNum real
  | JStr string
  | JArr "json list"
  | JObj "(string \<times> json) list"

subsection \<open>JavaScript operators on JSON values\<close>

text \<open>
  \<open>truthy\<close> is JavaScript's ToBoolean, \<open>js_or\<close> is \<open>a || b\<close>, \<open>js_coalesce\<close> is \<open>a ?? b\<close>,
  \<open>field k v\<close> reads \<open>v.k\<close> on a value that is neither null nor undefined, \<open>opt_field\<close> is
  \<open>v?.k\<close> and \<open>opt_index\<close> is \<open>v?.[i]\<close>. An object is an association list in insertion
  order; \<open>js_spread\<close> and \<open>js_object\<close> build \<open>{...base, k1: v1, ...}\<close>, a later key
  replacing an earlier one in place.
\<close>

fun truthy :: "json \<Rightarrow> bool" where
  "truthy JUndefined = False"
| "truthy JNull = False"
| "truthy (JBool b) = b"
| "truthy (JNum x) = (x \<noteq> 0)"
| "truthy (JStr s) = (s \<noteq> [])"
| "truthy (JArr xs) = True"
| "truthy (JObj kvs) = True"

definition js_or :: "json \<Rightarrow> json \<Rightarrow> json" where
  "js_or a b = (if truthy a then a else b)"

definition nullish :: "json \<Rightarrow> bool" where
  "nullish v = (v = JUndefined \<or> v = JNull)"

definition js_coalesce :: "json \<Rightarrow> json \<Rightarrow> json" where
  "js_coalesce a b = (if nullish a then b else a)"

fun field :: "string \<Rightarrow> json \<Rightarrow> json" where
  "field k (JObj kvs) = (case map_of kvs k of Some v \<Rightarrow> v | None \<Rightarrow> JUndefined)"
| "field k (JArr xs) = (if k = ''length'' then JNum (real (length xs)) else JUndefined)"
| "field k (JStr s) = (if k = ''length'' then JNum (real (length s)) else JUndefined)"
| "field k v = JUndefined"

definition opt_field :: "string \<Rightarrow> json \<Rightarrow> json" where
  "opt_field k v = (if nullish v then JUndefined else field k v)"

fun opt_index :: "nat \<Rightarrow> json \<Rightarrow> json" where
  "opt_index i (JArr xs) = (if i < length xs then xs ! i else JUndefined)"
| "opt_index i (JStr s) = (if i < length s then JStr [s ! i] else JUndefined)"
| "opt_index i v = JUndefined"

fun js_spread :: "json \<Rightarrow> (string \<times> json) list" where
  "js_spread (JObj kvs) = kvs"
| "js_spread v = []"

definition js_object :: "(string \<times> json) list \<Rightarrow> (string \<times> json) list \<Rightarrow> json" where
  "js_object base kvs = JObj (foldl (\<lambda>al (k, v). AList.update k v al) base kvs)"

text \<open>
  \<open>js_gt v c\<close> is \<open>v > c\<close> for a number \<open>c\<close>: null counts as 0, a boolean as 0 or 1 and
  undefined as NaN. A string, an array or an object in the place of a number is outside the
  model (the comparison is then taken as false).
\<close>

fun js_gt :: "json \<Rightarrow> real \<Rightarrow> bool" where
  "js_gt (JNum x) c = (x > c)"
| "js_gt JNull c = (0 > c)"
| "js_gt (JBool b) c = ((if b then 1 else 0) > c)"
| "js_gt v c = False"

text \<open>Decimal text of a natural number, as a template literal prints an integer.\<close>

fun nat_text :: "nat \<Rightarrow> string" where
  "nat_text n =
     (if n < 10 then [char_of (48 + n)] else nat_text (n div 10) @ [char_of (48 + n mod 10)])"

text \<open>
  \<open>js_text num v\<close> is \<open>String(v)\<close>, as a template literal and \<open>new Error(v)\<close> convert a
  value; \<open>num\<close> is the runtime's printing of a number.
\<close>

fun js_join :: "string list \<Rightarrow> string" where
  "js_join [] = []"
| "js_join [s] = s"
| "js_join (s # t # ss) = s @ '','' @ js_join (t # ss)"

fun js_text :: "(real \<Rightarrow> string) \<Rightarrow> json \<Rightarrow> string" where
  "js_text num JUndefined = ''undefined''"
| "js_text num JNull = ''null''"
| "js_text num (JBool b) = (if b then ''true'' else ''false'')"
| "js_text num (JNum x) = num x"
| "js_text num (JStr s) = s"
| "js_text num (JArr xs) =
     js_join (map (\<lambda>x. if nullish x then [] else js_text num x) xs)"
| "js_text num (JObj kvs) = ''[object Object]''"

subsection \<open>What a request reads from outside\<close>

text \<open>
  The parsed body of a Sightengine reply, together with the scores the server reads from it
  as numbers: \<open>data.deepfake?.prob\<close> and \<open>data.type?.deepfake\<close> (\<open>None\<close> when absent or
  null) and, for a video, \<open>frame?.type?.deepfake\<close> of every element of
  \<open>data.data?.frames\<close> (\<open>None\<close> when that is not an array). The source passes these
  scores on as \<open>confidence: number\<close>; a reply that holds a string or an object in their
  place is excluded by the types here. Everything else is read from \<open>reply_body\<close>.
\<close>

record sightengine_reply =
  reply_body :: json
  deepfake_prob :: "real option"
  type_deepfake :: "real option"
  frame_deepfake :: "real option list option"

text \<open>
  The outcome of \<open>axios.post\<close>: a reply, an axios error (the response status and
  \<open>retry-after\<close> header when there is a response, the response data, the message), or
  another thrown \<open>Error\<close> with its message.
\<close>

datatype axios_outcome =
    Resolved sightengine_reply
  | AxiosError "nat option" "string option" json string
  | OtherError string

text \<open>
  The environment variables, the successive results of \<open>Math.random()\<close> during the request,
  the runtime's printing of numbers, the size \<open>fs.statSync\<close> reports for the stored upload,
  the outcome the vendor call has if it is made, and the two readings of \<open>Date.now()\<close>.
\<close>

record world =
  SIGHTENGINE_USER :: "string option"
  SIGHTENGINE_SECRET :: "string option"
  RESEMBLE_API_KEY :: "string option"
  random :: "nat \<Rightarrow> real"
  number_text :: "real \<Rightarrow> string"
  stat_size :: nat
  axios_post :: axios_outcome
  clock_start :: int
  clock_end :: int

definition env_set :: "string option \<Rightarrow> bool" where
  "env_set v = (case v of None \<Rightarrow> False | Some s \<Rightarrow> s \<noteq> [])"

definition after :: "nat \<Rightarrow> (nat \<Rightarrow> real) \<Rightarrow> nat \<Rightarrow> real" where
  "after k r = (\<lambda>i. r (i + k))"

text \<open>Risk level and confidence category (server/routes/analyze.ts, helper functions).\<close>

definition getRiskLevel :: "real \<Rightarrow> string" where
  "getRiskLevel confidence =
     (if confidence \<ge> 0.8 then ''CRITICAL''
      else if confidence \<ge> 0.6 then ''HIGH''
      else if confidence \<ge> 0.4 then ''MEDIUM''
      else if confidence \<ge> 0.2 then ''LOW''
      else ''LOW'')"

definition getConfidenceCategory :: "real \<Rightarrow> string" where
  "getConfidenceCategory confidence =
     (if confidence \<ge> 0.9 then ''VERY_HIGH''
      else if confidence \<ge> 0.7 then ''HIGH''
      else if confidence \<ge> 0.5 then ''MEDIUM''
      else if confidence \<ge> 0.3 then ''LOW''
      else ''VERY_LOW'')"

definition emoji_siren :: string where
  "emoji_siren = [CHR 0xF0, CHR 0x9F, CHR 0x9A, CHR 0xA8]"

definition emoji_warning :: string where
  "emoji_warning = [CHR 0xE2, CHR 0x9A, CHR 0xA0, CHR 0xEF, CHR 0xB8, CHR 0x8F]"

definition emoji_magnifier :: string where
  "emoji_magnifier = [CHR 0xF0, CHR 0x9F, CHR 0x94, CHR 0x8D]"

definition emoji_check :: string where
  "emoji_check = [CHR 0xE2, CHR 0x9C, CHR 0x85]"

definition generateRecommendations :: "real \<Rightarrow> string \<Rightarrow> string list" where
  "generateRecommendations confidence riskLevel =
     (if confidence \<ge> 0.8 then
        [emoji_siren @ '' CRITICAL: Very high probability of deepfake detected'',
         ''Exercise extreme caution - this media is likely manipulated'',
         ''Verify source and context immediately'',
         ''Consider additional verification methods'',
         ''Document findings for security purposes'']
      else if confidence \<ge> 0.6 then
        [emoji_warning @ '' HIGH: High probability of deepfake detected'',
         ''Approach with extreme caution'',
         ''Verify media source and authenticity thoroughly'',
         ''Look for additional verification clues'',
         ''Consider professional analysis if critical'']
      else if confidence \<ge> 0.4 then
        [emoji_magnifier @ '' MEDIUM: Moderate manipulation indicators detected'',
         ''Some suspicious patterns identified'',
         ''Verify source and check for metadata inconsistencies'',
         ''Compare with known authentic versions if available'',
         ''Proceed with caution'']
      else if confidence \<ge> 0.2 then
        [emoji_check @ '' LOW: Minimal manipulation indicators'',
         ''Media appears mostly authentic'',
         ''Continue to verify source and context'',
         ''Monitor for any new detection methods'']
      else
        [emoji_check @ '' VERY LOW: No significant manipulation detected'',
         ''Media appears authentic based on current analysis'',
         ''Continue to verify source and context'',
         ''Monitor for any new detection methods''])"

definition generateLimitations :: "bool \<Rightarrow> real \<Rightarrow> string list" where
  "generateLimitations isDemo confidence =
     (if isDemo then
        [''Analysis performed in demo mode - results are simulated'',
         ''Real API credentials required for accurate detection'',
         ''Demo scores are randomly generated for demonstration purposes'']
      else [])
     @ (if confidence < 0.3 then
        [''Low confidence score may indicate unclear or ambiguous results'',
         ''Consider re-analyzing with different media or higher resolution'',
         ''Some manipulation techniques may evade current detection methods'']
      else [])
     @ [''Analysis based on current AI model capabilities'',
        ''New manipulation techniques may not be detected'',
        ''Results should be considered alongside other verification methods'',
        ''Professional verification recommended for critical applications'']"

section \<open>Building the analysis responses\<close>

text \<open>
  The functions below consume \<open>Math.random()\<close> in the order the source evaluates it; \<open>r i\<close>
  is the result of the \<open>i\<close>-th call made from the function's entry on, and \<open>after k r\<close> is
  the source of randomness once \<open>k\<close> calls are spent.
\<close>

definition generateDiffusionScores :: "real \<Rightarrow> (nat \<Rightarrow> real) \<Rightarrow> json" where
  "generateDiffusionScores confidence r =
     (if confidence < 0.3 then
        JObj [(''stableDiffusion'', JNum (r 0 * 0.08)),
              (''dalle'', JNum (r 1 * 0.05)),
              (''midjourney'', JNum (r 2 * 0.06)),
              (''firefly'', JNum (r 3 * 0.04)),
              (''flux'', JNum (r 4 * 0.05)),
              (''imagen'', JNum (r 5 * 0.04)),
              (''ideogram'', JNum (r 6 * 0.03)),
              (''other'', JNum (r 7 * 0.07)),
              (''wan'', JNum (r 8 * 0.02)),
              (''reve'', JNum (r 9 * 0.03)),
              (''recraft'', JNum (r 10 * 0.04)),
              (''qwen'', JNum (r 11 * 0.02)),
              (''gpt4o'', JNum (r 12 * 0.03))]
      else
        (let baseProb = confidence * 0.7;
             variation = (\<lambda>i. (r i * 0.15) - 0.075)
         in JObj [(''stableDiffusion'', JNum (max 0 (min 1 (baseProb * 0.40 + variation 0)))),
                  (''dalle'', JNum (max 0 (min 1 (baseProb * 0.28 + variation 1)))),
                  (''midjourney'', JNum (max 0 (min 1 (baseProb * 0.35 + variation 2)))),
                  (''firefly'', JNum (max 0 (min 1 (baseProb * 0.18 + variation 3)))),
                  (''flux'', JNum (max 0 (min 1 (baseProb * 0.22 + variation 4)))),
                  (''imagen'', JNum (max 0 (min 1 (baseProb * 0.20 + variation 5)))),
                  (''ideogram'', JNum (max 0 (min 1 (baseProb * 0.15 + variation 6)))),
                  (''other'', JNum (max 0 (min 1 (baseProb * 0.12 + variation 7)))),
                  (''wan'', JNum (max 0 (min 1 (baseProb * 0.10 + variation 8)))),
                  (''reve'', JNum (max 0 (min 1 (baseProb * 0.11 + variation 9)))),
                  (''recraft'', JNum (max 0 (min 1 (baseProb * 0.13 + variation 10)))),
                  (''qwen'', JNum (max 0 (min 1 (baseProb * 0.09 + variation 11)))),
                  (''gpt4o'', JNum (max 0 (min 1 (baseProb * 0.16 + variation 12))))]))"

definition generateGANScores :: "real \<Rightarrow> bool \<Rightarrow> (nat \<Rightarrow> real) \<Rightarrow> json" where
  "generateGANScores confidence isHighConfidence r =
     (let ganBase = (if isHighConfidence then confidence * 0.5 else confidence * 0.15)
      in JObj [(''styleGAN'', JNum (max 0 (min 1 (ganBase + (r 0 * 0.12 - 0.06))))),
               (''other'', JNum (max 0 (min 1 (ganBase * 0.35 + (r 1 * 0.10 - 0.05)))))])"

definition generateModelBreakdown :: "real \<Rightarrow> (nat \<Rightarrow> real) \<Rightarrow> json" where
  "generateModelBreakdown confidence r =
     (let isHighConfidence = confidence > 0.7;
          genAI = min (max (confidence * 0.15 + (r 0 * 0.05)) 0) 0.2;
          faceManipulation =
            (if isHighConfidence then min (confidence + (r 1 * 0.05 - 0.025)) 1
             else max (confidence * 0.3 + (r 1 * 0.05 - 0.025)) 0)
      in JObj [(''genAI'', JNum genAI),
               (''faceManipulation'', JNum faceManipulation),
               (''diffusion'', generateDiffusionScores confidence (after 2 r)),
               (''gan'', generateGANScores confidence isHighConfidence (after 15 r)),
               (''other'', JObj
                  [(''faceManipulation'', JNum
                      (if isHighConfidence then min (confidence + (r 17 * 0.05 - 0.025)) 1
                       else max (confidence * 0.3 + (r 17 * 0.05 - 0.025)) 0)),
                   (''deepfakeSwap'', JNum
                      (if isHighConfidence then min (confidence * 0.85) 1
                       else max (confidence * 0.2) 0)),
                   (''expression'', JNum
                      (if isHighConfidence then min (confidence * 0.65) 1
                       else max (confidence * 0.15) 0))])])"

definition strings :: "string list \<Rightarrow> json" where
  "strings xs = JArr (map JStr xs)"

definition processingWarnings :: "string option \<Rightarrow> json" where
  "processingWarnings errorMessage =
     (case errorMessage of
        None \<Rightarrow> JUndefined
      | Some m \<Rightarrow> (if m \<noteq> [] then JArr [JStr m] else JUndefined))"

definition analysisQuality_of :: "bool \<Rightarrow> json" where
  "analysisQuality_of isDemo = JStr (if isDemo then ''DEMO'' else ''API'')"

definition generateEnhancedImageResponse ::
  "(real \<Rightarrow> string) \<Rightarrow> (nat \<Rightarrow> real) \<Rightarrow> real \<Rightarrow> bool \<Rightarrow> json \<Rightarrow> json \<Rightarrow> string option \<Rightarrow> json" where
  "generateEnhancedImageResponse num r confidence isDemo metadata rawApiData errorMessage =
     (let riskLevel = getRiskLevel confidence;
          confidenceCategory = getConfidenceCategory confidence;
          recommendations = generateRecommendations confidence riskLevel;
          limitations = generateLimitations isDemo confidence;
          technicalAnalysis = JObj
            [(''resolution'', JStr (js_text num (js_or (field ''width'' metadata) (JStr ''unknown''))
                 @ ''x'' @ js_text num (js_or (field ''height'' metadata) (JStr ''unknown'')))),
             (''colorDepth'', JNum 24),
             (''compressionType'', js_or (field ''format'' metadata) (JStr ''unknown'')),
             (''exifData'', js_or (opt_field ''exif'' (opt_field ''media'' rawApiData)) JNull)];
          faceDetection =
            (if isDemo then JObj
               [(''facesDetected'', JNum (real_of_int (\<lfloor>r 0 * 3\<rfloor> + 1))),
                (''faceQuality'', JNum (r 1 * 0.5 + 0.5)),
                (''facialFeatures'', strings [''eyes'', ''nose'', ''mouth''])]
             else JObj
               [(''facesDetected'',
                   js_or (opt_field ''length'' (opt_field ''faces'' rawApiData)) (JNum 0)),
                (''faceQuality'',
                   js_or (opt_field ''quality'' (opt_index 0 (opt_field ''faces'' rawApiData)))
                     (JNum 0.8)),
                (''facialFeatures'',
                   js_or (opt_field ''features'' (opt_index 0 (opt_field ''faces'' rawApiData)))
                     (strings [''eyes'', ''nose'', ''mouth'']))]);
          manipulationIndicators = JObj
            [(''compressionArtifacts'',
                (if isDemo then JNum (r 2 * 0.3)
                 else js_or (opt_field ''compression_artifacts'' rawApiData) (JNum 0))),
             (''editingSigns'',
                (if isDemo then JNum (r 3 * 0.4)
                 else js_or (opt_field ''editing_signs'' rawApiData) (JNum 0))),
             (''metadataInconsistencies'',
                (if isDemo then JNum (r 4 * 0.2)
                 else js_or (opt_field ''metadata_inconsistencies'' rawApiData) (JNum 0)))];
          modelBreakdown = generateModelBreakdown confidence (after (if isDemo then 5 else 0) r)
      in JObj
        [(''status'', JStr ''success''),
         (''deepfake'', JObj [(''prob'', JNum confidence), (''deepfake_score'', JNum confidence)]),
         (''metadata'', metadata),
         (''raw_response'', rawApiData),
         (''detection_details'', JObj [(''face_deepfake'', JNum confidence)]),
         (''riskLevel'', JStr riskLevel),
         (''confidenceCategory'', JStr confidenceCategory),
         (''analysisQuality'', analysisQuality_of isDemo),
         (''modelBreakdown'', modelBreakdown),
         (''processingDetails'', JObj
            [(''apiProvider'', JStr ''Sightengine''),
             (''modelsUsed'', strings [''deepfake'']),
             (''processingMethod'', JStr ''AI-powered visual analysis''),
             (''qualityScore'', JNum (if isDemo then 0.6 else 0.9)),
             (''confidenceFactors'', JArr
                [JObj [(''factor'', JStr ''Visual Consistency''),
                       (''weight'', JNum 0.4),
                       (''description'', JStr ''Analysis of image artifacts and inconsistencies''),
                       (''impact'', JStr (if confidence > 0.7 then ''NEGATIVE'' else ''POSITIVE''))],
                 JObj [(''factor'', JStr ''Face Detection Quality''),
                       (''weight'', JNum 0.3),
                       (''description'', JStr ''Quality and number of detected faces''),
                       (''impact'', JStr (if js_gt (field ''faceQuality'' faceDetection) 0.7
                                           then ''POSITIVE'' else ''NEGATIVE''))],
                 JObj [(''factor'', JStr ''Technical Metadata''),
                       (''weight'', JNum 0.3),
                       (''description'', JStr ''File format and compression analysis''),
                       (''impact'', JStr ''NEUTRAL'')]]),
             (''processingWarnings'', processingWarnings errorMessage)]),
         (''recommendations'', strings recommendations),
         (''limitations'', strings limitations),
         (''imageAnalysis'', JObj
            [(''faceDetection'', faceDetection),
             (''manipulationIndicators'', manipulationIndicators),
             (''technicalAnalysis'', technicalAnalysis)])])"

text \<open>
  \<open>js_sum\<close> is \<open>scores.reduce((a, b) => a + b, 0)\<close> on the score array that
  \<open>analyzeVideo\<close> built, which holds numbers only.
\<close>

definition js_sum :: "json \<Rightarrow> real" where
  "js_sum v = (case v of
                 JArr xs \<Rightarrow> foldl (\<lambda>a b. a + (case b of JNum x \<Rightarrow> x | _ \<Rightarrow> 0)) 0 xs
               | _ \<Rightarrow> 0)"

definition js_length :: "json \<Rightarrow> real" where
  "js_length v = (case field ''length'' v of JNum n \<Rightarrow> n | _ \<Rightarrow> 0)"

definition generateEnhancedVideoResponse ::
  "(nat \<Rightarrow> real) \<Rightarrow> real \<Rightarrow> bool \<Rightarrow> json \<Rightarrow> json \<Rightarrow> string option \<Rightarrow> json" where
  "generateEnhancedVideoResponse r confidence isDemo metadata rawApiData errorMessage =
     (let riskLevel = getRiskLevel confidence;
          confidenceCategory = getConfidenceCategory confidence;
          recommendations = generateRecommendations confidence riskLevel;
          limitations = generateLimitations isDemo confidence;
          technicalAnalysis = JObj
            [(''resolution'', js_or (field ''resolution'' metadata) (JStr ''unknown'')),
             (''duration'', js_or (field ''duration'' metadata) (JStr ''unknown'')),
             (''fps'', js_or (field ''fps'' metadata) (JStr ''unknown'')),
             (''framesAnalyzed'', js_or (field ''frames_analyzed'' metadata) (JNum 0)),
             (''maxFrameScore'', js_or (field ''max_frame_score'' metadata) (JNum 0))];
          frame_analysis =
            opt_field ''frame_analysis'' (opt_field ''detection_details'' rawApiData);
          frameAnalysis =
            (if isDemo then JObj
               [(''totalFrames'', JNum (real_of_int (\<lfloor>r 0 * 30\<rfloor> + 10))),
                (''frameScores'', JArr (map (\<lambda>i. JNum (r i * 0.8)) [1, 2, 3, 4, 5])),
                (''maxScore'', JNum (r 6 * 0.8)),
                (''averageScore'', JNum (r 7 * 0.6))]
             else JObj
               [(''totalFrames'', js_or (opt_field ''total_frames'' frame_analysis) (JNum 0)),
                (''frameScores'', js_or (opt_field ''frame_scores'' frame_analysis) (JArr [])),
                (''maxScore'', js_or (opt_field ''max_score'' frame_analysis) (JNum 0)),
                (''averageScore'', JNum
                   (if js_gt (opt_field ''length'' (opt_field ''frame_scores'' frame_analysis)) 0
                    then js_sum (field ''frame_scores'' frame_analysis)
                           / js_length (field ''frame_scores'' frame_analysis)
                    else 0))]);
          manipulationIndicators = JObj
            [(''temporalInconsistencies'',
                (if isDemo then JNum (r 8 * 0.4)
                 else js_or (opt_field ''temporal_artifacts'' rawApiData) (JNum 0))),
             (''frameEditingSigns'',
                (if isDemo then JNum (r 9 * 0.3)
                 else js_or (opt_field ''frame_editing'' rawApiData) (JNum 0))),
             (''compressionArtifacts'',
                (if isDemo then JNum (r 10 * 0.3)
                 else js_or (opt_field ''compression_artifacts'' rawApiData) (JNum 0))),
             (''audioVideoSync'',
                (if isDemo then JNum (r 11 * 0.2)
                 else js_or (opt_field ''av_sync'' rawApiData) (JNum 0)))];
          modelBreakdown = generateModelBreakdown confidence (after (if isDemo then 12 else 0) r)
      in JObj
        [(''status'', JStr ''success''),
         (''deepfake'', JObj [(''prob'', JNum confidence), (''deepfake_score'', JNum confidence)]),
         (''metadata'', metadata),
         (''raw_response'', rawApiData),
         (''detection_details'', JObj
            [(''face_deepfake'', JNum confidence), (''frame_analysis'', frameAnalysis)]),
         (''riskLevel'', JStr riskLevel),
         (''confidenceCategory'', JStr confidenceCategory),
         (''analysisQuality'', analysisQuality_of isDemo),
         (''modelBreakdown'', modelBreakdown),
         (''processingDetails'', JObj
            [(''apiProvider'', JStr ''Sightengine''),
             (''modelsUsed'', strings [''deepfake'']),
             (''processingMethod'', JStr ''AI-powered video frame analysis''),
             (''qualityScore'', JNum (if isDemo then 0.6 else 0.9)),
             (''confidenceFactors'', JArr
                [JObj [(''factor'', JStr ''Frame Consistency''),
                       (''weight'', JNum 0.4),
                       (''description'',
                          JStr ''Analysis of temporal consistency across video frames''),
                       (''impact'', JStr (if confidence > 0.7 then ''NEGATIVE'' else ''POSITIVE''))],
                 JObj [(''factor'', JStr ''Frame Analysis Coverage''),
                       (''weight'', JNum 0.3),
                       (''description'', JStr ''Number and quality of analyzed frames''),
                       (''impact'', JStr (if js_gt (field ''totalFrames'' frameAnalysis) 20
                                           then ''POSITIVE'' else ''NEGATIVE''))],
                 JObj [(''factor'', JStr ''Temporal Artifacts''),
                       (''weight'', JNum 0.3),
                       (''description'',
                          JStr ''Detection of time-based manipulation indicators''),
                       (''impact'', JStr ''NEUTRAL'')]]),
             (''processingWarnings'', processingWarnings errorMessage)]),
         (''recommendations'', strings recommendations),
         (''limitations'', strings limitations),
         (''videoAnalysis'', JObj
            [(''frameAnalysis'', frameAnalysis),
             (''manipulationIndicators'', manipulationIndicators),
             (''technicalAnalysis'', technicalAnalysis)])])"

definition generateEnhancedAudioResponse ::
  "(nat \<Rightarrow> real) \<Rightarrow> real \<Rightarrow> bool \<Rightarrow> bool \<Rightarrow> json \<Rightarrow> json \<Rightarrow> string option \<Rightarrow> json" where
  "generateEnhancedAudioResponse r confidence isDeepfake isDemo metadata rawApiData errorMessage =
     (let riskLevel = getRiskLevel confidence;
          confidenceCategory = getConfidenceCategory confidence;
          recommendations = generateRecommendations confidence riskLevel;
          limitations = generateLimitations isDemo confidence;
          voice = opt_field ''voice_characteristics'' rawApiData;
          synthetic = opt_field ''synthetic_indicators'' rawApiData;
          quality = opt_field ''quality_metrics'' rawApiData;
          audioAnalysis =
            (if isDemo then JObj
               [(''voiceCharacteristics'', JObj
                   [(''naturalness'', JNum (r 0 * 0.5 + 0.3)),
                    (''consistency'', JNum (r 1 * 0.4 + 0.4)),
                    (''backgroundNoise'', JNum (r 2 * 0.3))]),
                (''syntheticIndicators'', JObj
                   [(''artificialPatterns'', JNum (r 3 * 0.6)),
                    (''frequencyAnomalies'', JNum (r 4 * 0.5)),
                    (''temporalInconsistencies'', JNum (r 5 * 0.4))]),
                (''qualityMetrics'', JObj
                   [(''clarity'', JNum (r 6 * 0.5 + 0.4)),
                    (''stability'', JNum (r 7 * 0.6 + 0.3))])]
             else JObj
               [(''voiceCharacteristics'', JObj
                   [(''naturalness'', js_or (opt_field ''naturalness'' voice) (JNum 0.7)),
                    (''consistency'', js_or (opt_field ''consistency'' voice) (JNum 0.8)),
                    (''backgroundNoise'', js_or (opt_field ''background_noise'' voice) (JNum 0.2))]),
                (''syntheticIndicators'', JObj
                   [(''artificialPatterns'',
                       js_or (opt_field ''artificial_patterns'' synthetic) (JNum 0.3)),
                    (''frequencyAnomalies'',
                       js_or (opt_field ''frequency_anomalies'' synthetic) (JNum 0.2)),
                    (''temporalInconsistencies'',
                       js_or (opt_field ''temporal_inconsistencies'' synthetic) (JNum 0.3))]),
                (''qualityMetrics'', JObj
                   [(''clarity'', js_or (opt_field ''clarity'' quality) (JNum 0.8)),
                    (''stability'', js_or (opt_field ''stability'' quality) (JNum 0.7))])])
      in JObj
        [(''status'', JStr ''success''),
         (''is_synthetic'', JBool isDeepfake),
         (''confidence'', JNum confidence),
         (''metadata'', metadata),
         (''raw_response'', rawApiData),
         (''riskLevel'', JStr riskLevel),
         (''confidenceCategory'', JStr confidenceCategory),
         (''analysisQuality'', analysisQuality_of isDemo),
         (''processingDetails'', JObj
            [(''apiProvider'', JStr ''Resemble AI''),
             (''modelsUsed'', strings [''voice_synthesis_detection'']),
             (''processingMethod'', JStr ''AI-powered audio pattern analysis''),
             (''qualityScore'', JNum (if isDemo then 0.6 else 0.9)),
             (''confidenceFactors'', JArr
                [JObj [(''factor'', JStr ''Voice Naturalness''),
                       (''weight'', JNum 0.4),
                       (''description'',
                          JStr ''Analysis of voice characteristics and natural patterns''),
                       (''impact'', JStr
                          (if js_gt (field ''naturalness''
                                       (field ''voiceCharacteristics'' audioAnalysis)) 0.7
                           then ''POSITIVE'' else ''NEGATIVE''))],
                 JObj [(''factor'', JStr ''Synthetic Indicators''),
                       (''weight'', JNum 0.4),
                       (''description'',
                          JStr ''Detection of artificial voice synthesis patterns''),
                       (''impact'', JStr
                          (if js_gt (field ''artificialPatterns''
                                       (field ''syntheticIndicators'' audioAnalysis)) 0.5
                           then ''NEGATIVE'' else ''POSITIVE''))],
                 JObj [(''factor'', JStr ''Audio Quality''),
                       (''weight'', JNum 0.2),
                       (''description'', JStr ''Overall audio clarity and stability metrics''),
                       (''impact'', JStr ''NEUTRAL'')]]),
             (''processingWarnings'', processingWarnings errorMessage)]),
         (''recommendations'', strings recommendations),
         (''limitations'', strings limitations),
         (''audioAnalysis'', audioAnalysis)])"

section \<open>Binary64 arithmetic\<close>

text \<open>
  The program computes a demo confidence as \<open>Math.random() * 0.3 + 0.7\<close>: two decimal
  literals, a product and a sum, each rounded to the nearest double, a tie going to the
  even significand. \<open>double x\<close> is that rounding of a real \<open>x\<close>. For \<open>x\<close> between
  \<open>2 ^ e\<close> and \<open>2 ^ (e + 1)\<close> the doubles are the multiples of \<open>2 ^ (e - 52)\<close>;
  \<open>binade\<close> finds \<open>e\<close>, from 1023 downwards and not below -1022, where the subnormal
  numbers begin, and \<open>rne\<close> rounds the quotient to an integer. Every number of this
  development is far below \<open>2 ^ 1024\<close>, so the overflow to Infinity is not modelled.
\<close>

definition rne :: "real \<Rightarrow> int" where
  "rne q =
     (let f = \<lfloor>q\<rfloor>; d = q - of_int f
      in if d < 1 / 2 then f else if d > 1 / 2 then f + 1 else if even f then f else f + 1)"

fun search :: "nat \<Rightarrow> int \<Rightarrow> real \<Rightarrow> int" where
  "search 0 e x = e"
| "search (Suc n) e x = (if 2 powi e \<le> x then e else search n (e - 1) x)"

definition binade :: "real \<Rightarrow> int" where
  "binade x = search 2045 1023 x"

definition double :: "real \<Rightarrow> real" where
  "double x =
     (let ulp = 2 powi (binade \<bar>x\<bar> - 52)
      in sgn x * (of_int (rne (\<bar>x\<bar> / ulp)) * ulp))"

text \<open>The operators \<open>*\<close> and \<open>+\<close> of the source on two doubles.\<close>

definition fmul :: "real \<Rightarrow> real \<Rightarrow> real" where
  "fmul a b = double (a * b)"

definition fadd :: "real \<Rightarrow> real \<Rightarrow> real" where
  "fadd a b = double (a + b)"

section \<open>Calling the vendors\<close>

text \<open>
  The demo scores. The source writes the two lines of \<open>demo_confidence\<close> three times: where
  the Sightengine credentials are missing (image and video) and where the image call fails.
  The fallback after a failed video call and the audio analysis have their own ranges.
  \<open>r 0\<close> and \<open>r 1\<close> are the two calls of \<open>Math.random()\<close>, in the order of the source;
  the literal \<open>0.5\<close> of the audio analysis is a double itself.
\<close>

definition demo_confidence :: "(nat \<Rightarrow> real) \<Rightarrow> real" where
  "demo_confidence r =
     (let isLikelyDeepfake = r 0 > double 0.8
      in if isLikelyDeepfake then fadd (fmul (r 1) (double 0.3)) (double 0.7)
         else fadd (fmul (r 1) (double 0.4)) (double 0.1))"

definition video_error_confidence :: "(nat \<Rightarrow> real) \<Rightarrow> real" where
  "video_error_confidence r =
     (let isLikelyDeepfake = r 0 > double 0.8
      in if isLikelyDeepfake then fadd (fmul (r 1) (double 0.25)) (double 0.05)
         else fadd (fmul (r 1) (double 0.35)) (double 0.65))"

definition audio_confidence :: "(nat \<Rightarrow> real) \<Rightarrow> real" where
  "audio_confidence r =
     (let isSynthetic = r 0 > 0.5
      in if isSynthetic then fadd (fmul (r 1) (double 0.25)) (double 0.7)
         else fadd (fmul (r 1) (double 0.2)) (double 0.75))"

definition image_demo_metadata :: json where
  "image_demo_metadata =
     JObj [(''width'', JNum 1024), (''height'', JNum 768), (''format'', JStr ''demo'')]"

definition video_demo_metadata :: json where
  "video_demo_metadata =
     JObj [(''duration'', JNum 15.6), (''fps'', JNum 30), (''resolution'', JStr ''1920x1080'')]"

definition check_url :: string where
  "check_url = ''https://api.sightengine.com/1.0/check.json''"

definition video_check_url :: string where
  "video_check_url = ''https://api.sightengine.com/1.0/video/check-sync.json''"

text \<open>
  An analysis returns the URLs it posted to, in order, and either the message of the
  \<open>Error\<close> it threw (\<open>Inl\<close>) or the enhanced response (\<open>Inr\<close>).
\<close>

definition image_demo_response :: "world \<Rightarrow> string \<Rightarrow> json" where
  "image_demo_response w errorDetails =
     generateEnhancedImageResponse (number_text w) (after 2 (random w))
       (demo_confidence (random w)) True image_demo_metadata JNull (Some errorDetails)"

definition image_errorDetails :: "world \<Rightarrow> nat option \<Rightarrow> json \<Rightarrow> string \<Rightarrow> string" where
  "image_errorDetails w status data message =
     (if status = Some 400 then ''Bad request - check file format and size''
      else if status = Some 401 then ''Authentication failed - check API credentials''
      else if status = Some 413 then ''File too large - exceeds API limits''
      else ''HTTP '' @ (case status of None \<Rightarrow> ''undefined'' | Some n \<Rightarrow> nat_text n) @ '': ''
           @ js_text (number_text w) (js_or (opt_field ''error'' data) (JStr message)))"

definition analyzeImage :: "world \<Rightarrow> string list \<times> (string + json)" where
  "analyzeImage w =
     (if \<not> env_set (SIGHTENGINE_USER w) \<or> \<not> env_set (SIGHTENGINE_SECRET w) then
        ([], Inr (image_demo_response w ''Sightengine API credentials not configured''))
      else if stat_size w = 0 then ([], Inl ''Uploaded file is empty'')
      else if stat_size w > 10 * 1024 * 1024 then ([], Inl ''File size exceeds 10MB limit'')
      else
        ([check_url],
         (case axios_post w of
            Resolved reply \<Rightarrow>
              (let data = reply_body reply in
               if \<not> nullish data \<and> field ''status'' data = JStr ''success'' then
                 (let deepfakeScore =
                        (case deepfake_prob reply of
                           Some p \<Rightarrow> if p \<noteq> 0 then Some p else None
                         | None \<Rightarrow> None);
                      typeScore =
                        (case type_deepfake reply of
                           Some q \<Rightarrow> if q \<noteq> 0 then Some q else None
                         | None \<Rightarrow> None);
                      score = (case deepfakeScore of
                                 Some p \<Rightarrow> p
                               | None \<Rightarrow> (case typeScore of Some q \<Rightarrow> q | None \<Rightarrow> 0))
                  in Inr (generateEnhancedImageResponse (number_text w) (random w) score False
                       (JObj
                          [(''width'', js_or (opt_field ''width'' (field ''media'' data))
                                         (JStr ''unknown'')),
                           (''height'', js_or (opt_field ''height'' (field ''media'' data))
                                          (JStr ''unknown'')),
                           (''format'', js_or (opt_field ''format'' (field ''media'' data))
                                          (JStr ''unknown''))])
                       data None))
               else Inr (image_demo_response w ''API call failed''))
          | AxiosError status retry data message \<Rightarrow>
              (if status = Some 429 then
                 Inl (''API rate limit exceeded. Please wait ''
                      @ (case retry of
                           Some t \<Rightarrow> if t \<noteq> [] then t else ''60''
                         | None \<Rightarrow> ''60'')
                      @ '' seconds before trying again.'')
               else Inr (image_demo_response w (image_errorDetails w status data message)))
          | OtherError message \<Rightarrow> Inr (image_demo_response w ''API call failed''))))"

definition video_error_response :: "world \<Rightarrow> string \<Rightarrow> json" where
  "video_error_response w message =
     generateEnhancedVideoResponse (after 2 (random w)) (video_error_confidence (random w))
       True video_demo_metadata JNull (Some message)"

definition analyzeVideo :: "world \<Rightarrow> string list \<times> (string + json)" where
  "analyzeVideo w =
     (if \<not> env_set (SIGHTENGINE_USER w) \<or> \<not> env_set (SIGHTENGINE_SECRET w) then
        ([], Inr (generateEnhancedVideoResponse (after 2 (random w))
                    (demo_confidence (random w)) True video_demo_metadata JNull
                    (Some ''Sightengine API credentials not configured'')))
      else
        ([video_check_url],
         (case axios_post w of
            Resolved reply \<Rightarrow>
              (let data = reply_body reply in
               if data = JNull then
                 Inr (video_error_response w
                        ''Cannot read properties of null (reading 'status')'')
               else if data = JUndefined then
                 Inr (video_error_response w
                        ''Cannot read properties of undefined (reading 'status')'')
               else if field ''status'' data = JStr ''success'' then
                 (let frames = (case frame_deepfake reply of Some fs \<Rightarrow> fs | None \<Rightarrow> []);
                      frameDeepfakeScores =
                        filter (\<lambda>score. score \<ge> 0)
                          (map (\<lambda>frame. case frame of Some x \<Rightarrow> x | None \<Rightarrow> 0) frames);
                      maxFrameDeepfake =
                        (case frameDeepfakeScores of [] \<Rightarrow> 0 | x # xs \<Rightarrow> fold max xs x);
                      summaryDeepfake =
                        (case deepfake_prob reply of
                           Some p \<Rightarrow> p
                         | None \<Rightarrow> (case type_deepfake reply of Some q \<Rightarrow> q | None \<Rightarrow> 0));
                      finalDeepfakeScore = max maxFrameDeepfake summaryDeepfake;
                      media = field ''media'' data
                  in Inr (generateEnhancedVideoResponse (random w) finalDeepfakeScore False
                       (JObj
                          [(''duration'', js_coalesce (opt_field ''duration'' media)
                              (js_coalesce (field ''duration'' data) (JStr ''unknown''))),
                           (''fps'', js_coalesce (opt_field ''fps'' media)
                              (js_coalesce (field ''fps'' data) (JStr ''unknown''))),
                           (''resolution'', JStr
                              (js_text (number_text w)
                                 (js_coalesce (opt_field ''width'' media)
                                    (js_coalesce (field ''width'' data) (JStr ''?'')))
                               @ ''x''
                               @ js_text (number_text w)
                                   (js_coalesce (opt_field ''height'' media)
                                      (js_coalesce (field ''height'' data) (JStr ''?''))))),
                           (''frames_analyzed'', JNum (real (length frames))),
                           (''max_frame_score'', JNum maxFrameDeepfake)])
                       (js_object (js_spread data)
                          [(''detection_details'', JObj
                              [(''face_deepfake'', JNum finalDeepfakeScore),
                               (''frame_analysis'', JObj
                                  [(''total_frames'', JNum (real (length frames))),
                                   (''frame_scores'', JArr (map JNum frameDeepfakeScores)),
                                   (''max_score'', JNum maxFrameDeepfake)])])])
                       None))
               else
                 Inr (video_error_response w
                        (js_text (number_text w)
                           (js_or (opt_field ''message'' (field ''error'' data))
                              (JStr ''Sightengine Video API returned unsuccessful status'')))))
          | AxiosError status retry data message \<Rightarrow> Inr (video_error_response w message)
          | OtherError message \<Rightarrow> Inr (video_error_response w message))))"

text \<open>
  The audio analysis reads neither the environment nor the file and posts to no vendor; the
  two seconds it waits are not modelled.
\<close>

definition analyzeAudio :: "world \<Rightarrow> string list \<times> (string + json)" where
  "analyzeAudio w =
     ([], Inr (let isSynthetic = random w 0 > 0.5;
                   confidence = audio_confidence (random w)
               in generateEnhancedAudioResponse (after 2 (random w)) confidence isSynthetic True
                    (JObj [(''duration'', JNum 8.5), (''sample_rate'', JNum 44100),
                           (''channels'', JNum 2)])
                    JUndefined None))"

section \<open>Uploads and the analyze endpoint\<close>

text \<open>Supported file types and their category (shared/api.ts).\<close>

definition SUPPORTED_IMAGE_TYPES :: "string list" where
  "SUPPORTED_IMAGE_TYPES = [''image/jpeg'', ''image/png'', ''image/webp'']"

definition SUPPORTED_VIDEO_TYPES :: "string list" where
  "SUPPORTED_VIDEO_TYPES = [''video/mp4'', ''video/webm'', ''video/mov'']"

definition SUPPORTED_AUDIO_TYPES :: "string list" where
  "SUPPORTED_AUDIO_TYPES = [''audio/wav'', ''audio/mp3'', ''audio/m4a'', ''audio/ogg'']"

definition ALL_SUPPORTED_TYPES :: "string list" where
  "ALL_SUPPORTED_TYPES = SUPPORTED_IMAGE_TYPES @ SUPPORTED_VIDEO_TYPES @ SUPPORTED_AUDIO_TYPES"

definition getFileCategory :: "string \<Rightarrow> string" where
  "getFileCategory mimeType =
     (if mimeType \<in> set SUPPORTED_IMAGE_TYPES then ''image''
      else if mimeType \<in> set SUPPORTED_VIDEO_TYPES then ''video''
      else if mimeType \<in> set SUPPORTED_AUDIO_TYPES then ''audio''
      else ''unsupported'')"

text \<open>
  The file object multer hands on. While \<open>fileFilter\<close> runs the upload has not been read
  and \<open>size\<close> is undefined (\<open>None\<close>); afterwards it is the number of bytes stored.
\<close>

record multer_file =
  originalname :: string
  mimetype :: string
  fsize :: "nat option"
  filename :: string
  path :: string

text \<open>
  String helpers: \<open>str_includes p s\<close> is \<open>s.includes(p)\<close>, \<open>toLowerCase\<close> lowers the ASCII
  letters, and \<open>extname\<close> is Node's \<open>path.extname\<close> on a name without a path separator
  (\<open>fileFilter\<close> has rejected the other names before it asks for the extension).
\<close>

fun starts_with :: "string \<Rightarrow> string \<Rightarrow> bool" where
  "starts_with [] s = True"
| "starts_with (c # p) [] = False"
| "starts_with (c # p) (d # s) = (c = d \<and> starts_with p s)"

fun str_includes :: "string \<Rightarrow> string \<Rightarrow> bool" where
  "str_includes p [] = (p = [])"
| "str_includes p (d # s) = (starts_with p (d # s) \<or> str_includes p s)"

definition toLowerCase :: "string \<Rightarrow> string" where
  "toLowerCase s =
     map (\<lambda>c. let n = (of_char c :: nat) in if 65 \<le> n \<and> n \<le> 90 then char_of (n + 32) else c) s"

definition extname :: "string \<Rightarrow> string" where
  "extname p =
     (let ext = CHR ''.'' # rev (takeWhile (\<lambda>c. c \<noteq> CHR ''.'') (rev p))
      in if CHR ''.'' \<notin> set p \<or> length p = length ext \<or> p = ''..'' then [] else ext)"

definition suspiciousExtensions :: "string list" where
  "suspiciousExtensions =
     [''.exe'', ''.bat'', ''.cmd'', ''.com'', ''.pif'', ''.scr'', ''.vbs'', ''.js'', ''.jar'']"

text \<open>
  \<open>fileFilter\<close> calls back with an error (\<open>Inl\<close>, the message) or accepts the file
  (\<open>Inr True\<close>).
\<close>

definition fileFilter :: "multer_file option \<Rightarrow> string + bool" where
  "fileFilter file_opt =
     (case file_opt of
        None \<Rightarrow> Inl ''No file provided''
      | Some file \<Rightarrow>
          (if (case fsize file of Some n \<Rightarrow> n > 10 * 1024 * 1024 | None \<Rightarrow> False) then
             Inl ''File size exceeds 10MB limit''
           else if fsize file = Some 0 then Inl ''File is empty''
           else
             (let category = getFileCategory (mimetype file) in
              if category = ''unsupported'' then
                Inl (''Unsupported file type: '' @ mimetype file)
              else if originalname file = [] \<or> length (originalname file) > 255 then
                Inl ''Invalid filename''
              else
                (let filename = toLowerCase (originalname file) in
                 if str_includes ''..'' filename \<or> str_includes ''/'' filename
                    \<or> str_includes [CHR 0x5C] filename then
                   Inl ''Invalid filename - path traversal not allowed''
                 else
                   (let fileExt = toLowerCase (extname filename) in
                    if fileExt \<in> set suspiciousExtensions then
                      Inl (''File type not allowed: '' @ fileExt)
                    else Inr True)))))"

text \<open>
  The size limit configured for multer, and multer's \<open>upload.single\<close> as the server
  configures it. Multer is a library: its documented behaviour is taken here. It runs
  \<open>fileFilter\<close> on the file part before reading it, stores an accepted file, and fails with
  \<open>File too large\<close> when the file has more bytes than \<open>limits.fileSize\<close>. The argument is
  the file part as it would be stored; \<open>None\<close> is a request without one.
\<close>

definition limits_fileSize :: nat where
  "limits_fileSize = 10 * 1024 * 1024"

definition upload_single :: "multer_file option \<Rightarrow> string + multer_file option" where
  "upload_single part =
     (case part of
        None \<Rightarrow> Inr None
      | Some file \<Rightarrow>
          (case fileFilter (Some (file\<lparr>fsize := None\<rparr>)) of
             Inl err \<Rightarrow> Inl err
           | Inr accept \<Rightarrow>
               (if \<not> accept then Inr None
                else if (case fsize file of Some n \<Rightarrow> n > limits_fileSize | None \<Rightarrow> False) then
                  Inl ''File too large''
                else Inr (Some file))))"

record http_response =
  status_code :: nat
  response_body :: json

definition json_of_size :: "nat option \<Rightarrow> json" where
  "json_of_size n = (case n of Some k \<Rightarrow> JNum (real k) | None \<Rightarrow> JUndefined)"

definition result_metadata :: "multer_file \<Rightarrow> json \<Rightarrow> json" where
  "result_metadata file apiResponse =
     js_object (js_spread (field ''metadata'' apiResponse))
       [(''file_name'', JStr (originalname file)),
        (''saved_filename'', JStr (filename file)),
        (''file_size'', json_of_size (fsize file)),
        (''file_type'', JStr (mimetype file))]"

definition image_analysisResult :: "world \<Rightarrow> multer_file \<Rightarrow> json \<Rightarrow> json" where
  "image_analysisResult w file apiResponse =
     JObj
       [(''type'', JStr ''image''),
        (''isDeepfake'', JBool (js_gt (field ''prob'' (field ''deepfake'' apiResponse)) 0.7)),
        (''confidence'', field ''prob'' (field ''deepfake'' apiResponse)),
        (''analysisTime'', JNum (real_of_int (clock_end w - clock_start w))),
        (''sightengineData'', apiResponse),
        (''metadata'', result_metadata file apiResponse),
        (''riskLevel'', field ''riskLevel'' apiResponse),
        (''confidenceCategory'', field ''confidenceCategory'' apiResponse),
        (''analysisQuality'', field ''analysisQuality'' apiResponse),
        (''modelBreakdown'', field ''modelBreakdown'' apiResponse),
        (''processingDetails'', field ''processingDetails'' apiResponse),
        (''recommendations'', field ''recommendations'' apiResponse),
        (''limitations'', field ''limitations'' apiResponse),
        (''imageAnalysis'', field ''imageAnalysis'' apiResponse)]"

definition video_analysisResult :: "world \<Rightarrow> multer_file \<Rightarrow> json \<Rightarrow> json" where
  "video_analysisResult w file apiResponse =
     JObj
       [(''type'', JStr ''video''),
        (''isDeepfake'', JBool (js_gt (field ''prob'' (field ''deepfake'' apiResponse)) 0.7)),
        (''confidence'', field ''prob'' (field ''deepfake'' apiResponse)),
        (''analysisTime'', JNum (real_of_int (clock_end w - clock_start w))),
        (''sightengineData'', apiResponse),
        (''metadata'', result_metadata file apiResponse),
        (''riskLevel'', field ''riskLevel'' apiResponse),
        (''confidenceCategory'', field ''confidenceCategory'' apiResponse),
        (''analysisQuality'', field ''analysisQuality'' apiResponse),
        (''modelBreakdown'', field ''modelBreakdown'' apiResponse),
        (''processingDetails'', field ''processingDetails'' apiResponse),
        (''recommendations'', field ''recommendations'' apiResponse),
        (''limitations'', field ''limitations'' apiResponse),
        (''videoAnalysis'', field ''videoAnalysis'' apiResponse)]"

definition audio_analysisResult :: "world \<Rightarrow> multer_file \<Rightarrow> json \<Rightarrow> json" where
  "audio_analysisResult w file apiResponse =
     JObj
       [(''type'', JStr ''audio''),
        (''isDeepfake'', field ''is_synthetic'' apiResponse),
        (''confidence'', field ''confidence'' apiResponse),
        (''analysisTime'', JNum (real_of_int (clock_end w - clock_start w))),
        (''resembleData'', apiResponse),
        (''metadata'', result_metadata file apiResponse),
        (''riskLevel'', field ''riskLevel'' apiResponse),
        (''confidenceCategory'', field ''confidenceCategory'' apiResponse),
        (''analysisQuality'', field ''analysisQuality'' apiResponse),
        (''processingDetails'', field ''processingDetails'' apiResponse),
        (''recommendations'', field ''recommendations'' apiResponse),
        (''limitations'', field ''limitations'' apiResponse),
        (''audioAnalysis'', field ''audioAnalysis'' apiResponse)]"

definition json_success :: "json \<Rightarrow> http_response" where
  "json_success analysisResult =
     \<lparr>status_code = 200,
      response_body = JObj [(''success'', JBool True), (''result'', analysisResult)]\<rparr>"

definition json_failure :: "nat \<Rightarrow> string \<Rightarrow> http_response" where
  "json_failure code message =
     \<lparr>status_code = code,
      response_body = JObj [(''success'', JBool False), (''error'', JStr message)]\<rparr>"

text \<open>
  \<open>handleAnalyze\<close>: the URLs posted to and the response sent. An \<open>Error\<close> thrown by an
  analysis is answered with status 500 and its message.
\<close>

definition finish :: "(json \<Rightarrow> json) \<Rightarrow> string list \<times> (string + json) \<Rightarrow> string list \<times> http_response" where
  "finish shape outcome =
     (case outcome of
        (calls, Inl message) \<Rightarrow> (calls, json_failure 500 message)
      | (calls, Inr apiResponse) \<Rightarrow> (calls, json_success (shape apiResponse)))"

definition handleAnalyze :: "world \<Rightarrow> multer_file option \<Rightarrow> string list \<times> http_response" where
  "handleAnalyze w file_opt =
     (case file_opt of
        None \<Rightarrow> ([], json_failure 400 ''No file uploaded'')
      | Some file \<Rightarrow>
          (let category = getFileCategory (mimetype file) in
           if category = ''image'' then finish (image_analysisResult w file) (analyzeImage w)
           else if category = ''video'' then finish (video_analysisResult w file) (analyzeVideo w)
           else if category = ''audio'' then finish (audio_analysisResult w file) (analyzeAudio w)
           else ([], json_failure 500 ''Unsupported file type'')))"

text \<open>The route \<open>POST /api/analyze\<close>: multer first, then \<open>handleAnalyze\<close>.\<close>

definition api_analyze :: "world \<Rightarrow> multer_file option \<Rightarrow> string list \<times> http_response" where
  "api_analyze w part =
     (case upload_single part of
        Inl message \<Rightarrow> ([], json_failure 400 message)
      | Inr file_opt \<Rightarrow> handleAnalyze w file_opt)"

text \<open>
  The request validation middleware of \<open>createServer\<close>, which runs before the routes:
  \<open>Some\<close> response when it answers itself, \<open>None\<close> when it calls \<open>next()\<close>.
  \<open>content_length\<close> is \<open>parseInt\<close> of the header (\<open>None\<close> for a missing, empty or
  unreadable header, where the comparison is false). The CORS and header middleware are not
  modelled.
\<close>

record request =
  http_method :: string
  content_length :: "int option"
  user_agent :: "string option"
  file_part :: "multer_file option"

definition suspiciousPatterns :: "string list" where
  "suspiciousPatterns =
     [''bot'', ''crawler'', ''spider'', ''scraper'', ''curl'', ''wget'', ''python'', ''java'',
      ''sqlmap'', ''nikto'', ''nmap'']"

definition json_rejection :: "nat \<Rightarrow> string \<Rightarrow> string \<Rightarrow> http_response" where
  "json_rejection code err message =
     \<lparr>status_code = code,
      response_body =
        JObj [(''success'', JBool False), (''error'', JStr err), (''message'', JStr message)]\<rparr>"

definition validate_request :: "request \<Rightarrow> http_response option" where
  "validate_request req =
     (if http_method req \<notin> set [''GET'', ''POST'', ''OPTIONS''] then
        Some (json_rejection 405 ''Method not allowed''
                (''HTTP method '' @ http_method req @ '' is not supported''))
      else if http_method req = ''POST''
              \<and> (case content_length req of
                     Some contentLength \<Rightarrow> contentLength > 10 * 1024 * 1024
                   | None \<Rightarrow> False) then
        Some (json_rejection 413 ''Payload too large'' ''Request body exceeds 10MB limit'')
      else
        (let userAgent = (case user_agent req of Some u \<Rightarrow> u | None \<Rightarrow> [])
         in if list_ex (\<lambda>pattern. str_includes pattern (toLowerCase userAgent))
                 suspiciousPatterns then
              Some (json_rejection 403 ''Access denied'' ''Request blocked for security reasons'')
            else None))"

definition post_api_analyze :: "world \<Rightarrow> request \<Rightarrow> string list \<times> http_response" where
  "post_api_analyze w req =
     (case validate_request req of
        Some response \<Rightarrow> ([], response)
      | None \<Rightarrow> api_analyze w (file_part req))"

section \<open>The cleanup endpoint\<close>

text \<open>
  The uploads directory is a list of named entries in the order \<open>readdirSync\<close> lists them;
  an entry has its modification time in milliseconds and is a regular file or a directory.
  \<open>unlinkSync\<close> removes a regular file and throws on a directory or a missing name.
  \<open>Date.now()\<close> is read once per file; the model takes one instant \<open>now\<close> for the whole
  request.
\<close>

datatype entry_kind = RegularFile | Directory

record dir_entry =
  mtime :: int
  kind :: entry_kind

type_synonym directory = "(string \<times> dir_entry) list"

definition unlinkSync :: "string \<Rightarrow> directory \<Rightarrow> string + directory" where
  "unlinkSync name dir =
     (case map_of dir name of
        None \<Rightarrow> Inl ''ENOENT''
      | Some e \<Rightarrow> (if kind e = Directory then Inl ''EISDIR'' else Inr (AList.delete name dir)))"

text \<open>
  The loop over the listed names: the directory as it is left, and the error thrown
  (\<open>Inl\<close>) or the number of files removed (\<open>Inr\<close>).
\<close>

fun cleanup_loop :: "int \<Rightarrow> string list \<Rightarrow> directory \<Rightarrow> nat \<Rightarrow> directory \<times> (string + nat)" where
  "cleanup_loop now [] dir cleanedCount = (dir, Inr cleanedCount)"
| "cleanup_loop now (file # files) dir cleanedCount =
     (case map_of dir file of
        None \<Rightarrow> (dir, Inl ''ENOENT'')
      | Some stats \<Rightarrow>
          (let ageInHours = real_of_int (now - mtime stats) / (1000 * 60 * 60) in
           if ageInHours > 24 then
             (case unlinkSync file dir of
                Inl err \<Rightarrow> (dir, Inl err)
              | Inr dir' \<Rightarrow> cleanup_loop now files dir' (cleanedCount + 1))
           else cleanup_loop now files dir cleanedCount))"

definition cleanup_files :: "int \<Rightarrow> directory option \<Rightarrow> directory option \<times> http_response" where
  "cleanup_files now uploads =
     (case uploads of
        None \<Rightarrow>
          (None,
           \<lparr>status_code = 200,
            response_body =
              JObj [(''success'', JBool True), (''message'', JStr ''No uploads directory found'')]\<rparr>)
      | Some dir \<Rightarrow>
          (case cleanup_loop now (map fst dir) dir 0 of
             (dir', Inl err) \<Rightarrow> (Some dir', json_failure 500 ''Cleanup failed'')
           | (dir', Inr cleanedCount) \<Rightarrow>
               (Some dir',
                \<lparr>status_code = 200,
                 response_body =
                   JObj [(''success'', JBool True),
                         (''message'', JStr (''Cleaned up '' @ nat_text cleanedCount @ '' old files'')),
                         (''cleanedCount'', JNum (real cleanedCount))]\<rparr>)))"

text \<open>
  A file is stale when its modification time is more than 24 hours before \<open>now\<close> (this
  definition follows the specification's wording, not the source).
\<close>

definition stale :: "int \<Rightarrow> dir_entry \<Rightarrow> bool" where
  "stale now e = (now - mtime e > 24 * 60 * 60 * 1000)"


section \<open>Reading a response\<close>

text \<open>
  What the theorems observe of a response: whether it reports success, the analysis result
  it carries, whether that result is demo data; and of the world: whether both Sightengine
  credentials are set, and whether the vendor call returns a reply with status
  \<open>success\<close>.
\<close>

definition succeeded :: "http_response \<Rightarrow> bool" where
  "succeeded resp = (field ''success'' (response_body resp) = JBool True)"

definition result_of :: "http_response \<Rightarrow> json" where
  "result_of resp = field ''result'' (response_body resp)"

definition is_demo :: "json \<Rightarrow> bool" where
  "is_demo result = (field ''analysisQuality'' result = JStr ''DEMO'')"

definition analysis_response :: "world \<Rightarrow> multer_file \<Rightarrow> http_response" where
  "analysis_response w file = snd (handleAnalyze w (Some file))"

definition outbound_calls :: "world \<Rightarrow> multer_file \<Rightarrow> string list" where
  "outbound_calls w file = fst (handleAnalyze w (Some file))"

definition result_field :: "string \<Rightarrow> world \<Rightarrow> multer_file \<Rightarrow> json" where
  "result_field k w file = field k (result_of (analysis_response w file))"

definition sightengine_configured :: "world \<Rightarrow> bool" where
  "sightengine_configured w = (env_set (SIGHTENGINE_USER w) \<and> env_set (SIGHTENGINE_SECRET w))"

definition vendor_success :: "world \<Rightarrow> bool" where
  "vendor_success w =
     (case axios_post w of
        Resolved reply \<Rightarrow>
          \<not> nullish (reply_body reply) \<and> field ''status'' (reply_body reply) = JStr ''success''
      | AxiosError status retry data message \<Rightarrow> False
      | OtherError message \<Rightarrow> False)"

definition rate_limited :: "world \<Rightarrow> bool" where
  "rate_limited w =
     (case axios_post w of
        Resolved reply \<Rightarrow> False
      | AxiosError status retry data message \<Rightarrow> status = Some 429
      | OtherError message \<Rightarrow> False)"

text \<open>
  The members the shared types declare at the top level of an analysis result, by the kind
  of JSON value: those of \<open>BaseAnalysisResult\<close>, the discriminant \<open>type\<close>, and the two
  members each of \<open>ImageAnalysisResult\<close>, \<open>VideoAnalysisResult\<close> and
  \<open>AudioAnalysisResult\<close> adds (these definitions follow shared/api.ts and the
  specification's wording).
\<close>

fun is_boolean :: "json \<Rightarrow> bool" where
  "is_boolean (JBool b) = True"
| "is_boolean v = False"

fun is_number :: "json \<Rightarrow> bool" where
  "is_number (JNum x) = True"
| "is_number v = False"

fun is_object :: "json \<Rightarrow> bool" where
  "is_object (JObj kvs) = True"
| "is_object v = False"

fun is_string_array :: "json \<Rightarrow> bool" where
  "is_string_array (JArr xs) = list_all (\<lambda>x. case x of JStr s \<Rightarrow> True | _ \<Rightarrow> False) xs"
| "is_string_array v = False"

definition has_base_fields :: "json \<Rightarrow> bool" where
  "has_base_fields r =
     (is_boolean (field ''isDeepfake'' r)
      \<and> is_number (field ''confidence'' r)
      \<and> is_number (field ''analysisTime'' r)
      \<and> field ''riskLevel'' r \<in> set (map JStr [''LOW'', ''MEDIUM'', ''HIGH'', ''CRITICAL''])
      \<and> field ''confidenceCategory'' r
           \<in> set (map JStr [''VERY_LOW'', ''LOW'', ''MEDIUM'', ''HIGH'', ''VERY_HIGH''])
      \<and> field ''analysisQuality'' r \<in> set (map JStr [''DEMO'', ''API'', ''ENHANCED''])
      \<and> is_object (field ''processingDetails'' r)
      \<and> is_string_array (field ''recommendations'' r)
      \<and> is_string_array (field ''limitations'' r))"

definition top_level_shape :: "string \<Rightarrow> json \<Rightarrow> bool" where
  "top_level_shape category r =
     (field ''type'' r = JStr category
      \<and> has_base_fields r
      \<and> (if category = ''audio''
          then is_object (field ''resembleData'' r) \<and> is_object (field ''audioAnalysis'' r)
          else is_object (field ''sightengineData'' r)
               \<and> is_object (field (category @ ''Analysis'') r)))"

text \<open>
  That a value is the enhanced response built for confidence \<open>c\<close> with demo flag \<open>d\<close>.
\<close>

definition image_response :: "real \<Rightarrow> bool \<Rightarrow> json \<Rightarrow> bool" where
  "image_response c d resp =
     (\<exists>num r m raw e. resp = generateEnhancedImageResponse num r c d m raw e)"

definition video_response :: "real \<Rightarrow> bool \<Rightarrow> json \<Rightarrow> bool" where
  "video_response c d resp =
     (\<exists>r m raw e. resp = generateEnhancedVideoResponse r c d m raw e)"

definition audio_response :: "real \<Rightarrow> bool \<Rightarrow> bool \<Rightarrow> json \<Rightarrow> bool" where
  "audio_response c s d resp =
     (\<exists>r m raw e. resp = generateEnhancedAudioResponse r c s d m raw e)"

section \<open>Example inputs\<close>

definition example_file :: "string \<Rightarrow> multer_file" where
  "example_file mime =
     \<lparr>originalname = ''clip.bin'', mimetype = mime, fsize = Some 2048,
      filename = ''1700000000000-clip.bin'', path = ''uploads/1700000000000-clip.bin''\<rparr>"

definition example_world :: "string option \<Rightarrow> axios_outcome \<Rightarrow> (nat \<Rightarrow> real) \<Rightarrow> world" where
  "example_world key outcome r =
     \<lparr>SIGHTENGINE_USER = key, SIGHTENGINE_SECRET = key, RESEMBLE_API_KEY = key,
      random = r, number_text = (\<lambda>x. nat_text (nat \<lfloor>x\<rfloor>)), stat_size = 2048,
      axios_post = outcome, clock_start = 1000, clock_end = 3000\<rparr>"

definition example_reply :: "real \<Rightarrow> sightengine_reply" where
  "example_reply p =
     \<lparr>reply_body = JObj [(''status'', JStr ''success'')], deepfake_prob = Some p,
      type_deepfake = None, frame_deepfake = None\<rparr>"

text \<open>A vendor call that times out: an axios error without a response.\<close>

definition example_timeout :: axios_outcome where
  "example_timeout = AxiosError None None JUndefined ''timeout of 30000ms exceeded''"

definition draws :: "real \<Rightarrow> real \<Rightarrow> nat \<Rightarrow> real" where
  "draws a b i = (if i = 0 then a else b)"

definition example_directory :: directory where
  "example_directory =
     [(''1-a.png'', \<lparr>mtime = 0, kind = RegularFile\<rparr>),
      (''2-b.png'', \<lparr>mtime = 86400000, kind = RegularFile\<rparr>),
      (''3-c.png'', \<lparr>mtime = 86399999, kind = RegularFile\<rparr>)]"

section \<open>Risk level buckets\<close>


section \<open>Fields of the responses\<close>

lemma image_responseI: "image_response c d (generateEnhancedImageResponse num r c d m raw e)"
  unfolding image_response_def by blast

lemma video_responseI: "video_response c d (generateEnhancedVideoResponse r c d m raw e)"
  unfolding video_response_def by blast

lemma audio_responseI: "audio_response c s d (generateEnhancedAudioResponse r c s d m raw e)"
  unfolding audio_response_def by blast

lemma image_response_fields:
  assumes "image_response c d resp"
  shows "field ''deepfake'' resp = JObj [(''prob'', JNum c), (''deepfake_score'', JNum c)]"
    and "field ''riskLevel'' resp = JStr (getRiskLevel c)"
    and "field ''analysisQuality'' resp = analysisQuality_of d"
    and "field ''confidenceCategory'' resp = JStr (getConfidenceCategory c)"
    and "field ''recommendations'' resp = strings (generateRecommendations c (getRiskLevel c))"
  using assms unfolding image_response_def
  by (auto simp: generateEnhancedImageResponse_def Let_def)

lemma video_response_fields:
  assumes "video_response c d resp"
  shows "field ''deepfake'' resp = JObj [(''prob'', JNum c), (''deepfake_score'', JNum c)]"
    and "field ''riskLevel'' resp = JStr (getRiskLevel c)"
    and "field ''analysisQuality'' resp = analysisQuality_of d"
    and "field ''confidenceCategory'' resp = JStr (getConfidenceCategory c)"
    and "field ''recommendations'' resp = strings (generateRecommendations c (getRiskLevel c))"
  using assms unfolding video_response_def
  by (auto simp: generateEnhancedVideoResponse_def Let_def)

lemma audio_response_fields:
  assumes "audio_response c s d resp"
  shows "field ''is_synthetic'' resp = JBool s"
    and "field ''confidence'' resp = JNum c"
    and "field ''riskLevel'' resp = JStr (getRiskLevel c)"
    and "field ''analysisQuality'' resp = analysisQuality_of d"
    and "field ''confidenceCategory'' resp = JStr (getConfidenceCategory c)"
    and "field ''recommendations'' resp = strings (generateRecommendations c (getRiskLevel c))"
  using assms unfolding audio_response_def
  by (auto simp: generateEnhancedAudioResponse_def Let_def)

lemma image_result_fields:
  assumes "image_response c d api"
  shows "field ''type'' (image_analysisResult w file api) = JStr ''image''"
    and "field ''confidence'' (image_analysisResult w file api) = JNum c"
    and "field ''isDeepfake'' (image_analysisResult w file api) = JBool (c > 0.7)"
    and "field ''riskLevel'' (image_analysisResult w file api) = JStr (getRiskLevel c)"
    and "field ''analysisQuality'' (image_analysisResult w file api) = analysisQuality_of d"
    and "field ''confidenceCategory'' (image_analysisResult w file api) = JStr (getConfidenceCategory c)"
    and "field ''sightengineData'' (image_analysisResult w file api) = api"
  by (simp_all add: image_analysisResult_def image_response_fields [OF assms])

lemma video_result_fields:
  assumes "video_response c d api"
  shows "field ''type'' (video_analysisResult w file api) = JStr ''video''"
    and "field ''confidence'' (video_analysisResult w file api) = JNum c"
    and "field ''isDeepfake'' (video_analysisResult w file api) = JBool (c > 0.7)"
    and "field ''riskLevel'' (video_analysisResult w file api) = JStr (getRiskLevel c)"
    and "field ''analysisQuality'' (video_analysisResult w file api) = analysisQuality_of d"
    and "field ''confidenceCategory'' (video_analysisResult w file api) = JStr (getConfidenceCategory c)"
    and "field ''sightengineData'' (video_analysisResult w file api) = api"
  by (simp_all add: video_analysisResult_def video_response_fields [OF assms])

lemma audio_result_fields:
  assumes "audio_response c s d api"
  shows "field ''type'' (audio_analysisResult w file api) = JStr ''audio''"
    and "field ''confidence'' (audio_analysisResult w file api) = JNum c"
    and "field ''isDeepfake'' (audio_analysisResult w file api) = JBool s"
    and "field ''riskLevel'' (audio_analysisResult w file api) = JStr (getRiskLevel c)"
    and "field ''analysisQuality'' (audio_analysisResult w file api) = analysisQuality_of d"
    and "field ''confidenceCategory'' (audio_analysisResult w file api) = JStr (getConfidenceCategory c)"
    and "field ''resembleData'' (audio_analysisResult w file api) = api"
  by (simp_all add: audio_analysisResult_def audio_response_fields [OF assms])

lemma succeeded_simps:
  "succeeded (json_success r) = True"
  "succeeded (json_failure code msg) = False"
  "result_of (json_success r) = r"
  by (simp_all add: succeeded_def result_of_def json_success_def json_failure_def)

section \<open>What each analysis returns\<close>

lemma analyzeImage_Inr:
  assumes "analyzeImage w = (calls, Inr resp)"
  shows "\<exists>c. image_response c (\<not> (sightengine_configured w \<and> vendor_success w)) resp
          \<and> (\<not> (sightengine_configured w \<and> vendor_success w) \<longrightarrow> c = demo_confidence (random w))"
  using assms
  unfolding analyzeImage_def sightengine_configured_def vendor_success_def image_demo_response_def
  by (auto simp: Let_def image_responseI intro: image_responseI split: if_splits axios_outcome.splits)

lemma analyzeVideo_Inr:
  "\<exists>c resp. analyzeVideo w = (if sightengine_configured w then [video_check_url] else [], Inr resp)
      \<and> video_response c (\<not> (sightengine_configured w \<and> vendor_success w)) resp
      \<and> (\<not> (sightengine_configured w \<and> vendor_success w) \<longrightarrow>
               c = (if sightengine_configured w then video_error_confidence (random w)
                    else demo_confidence (random w)))"
  unfolding analyzeVideo_def sightengine_configured_def vendor_success_def video_error_response_def nullish_def
  by (auto simp: Let_def video_responseI intro: video_responseI split: if_splits axios_outcome.splits)

lemma analyzeAudio_Inr:
  "\<exists>resp. analyzeAudio w = ([], Inr resp)
      \<and> audio_response (audio_confidence (random w)) (random w 0 > 0.5) True resp"
  unfolding analyzeAudio_def by (simp add: Let_def audio_responseI)

lemma handleAnalyze_image:
  assumes "getFileCategory (mimetype file) = ''image''"
    and "succeeded (analysis_response w file)"
  shows "\<exists>c api. result_of (analysis_response w file) = image_analysisResult w file api
          \<and> image_response c (\<not> (sightengine_configured w \<and> vendor_success w)) api
          \<and> (\<not> (sightengine_configured w \<and> vendor_success w) \<longrightarrow> c = demo_confidence (random w))"
proof (cases "analyzeImage w")
  case (Pair calls outcome)
  show ?thesis
  proof (cases outcome)
    case (Inl message)
    with Pair assms show ?thesis
      by (simp add: analysis_response_def handleAnalyze_def finish_def succeeded_simps)
  next
    case (Inr api)
    with Pair assms(1) have "result_of (analysis_response w file) = image_analysisResult w file api"
      by (simp add: analysis_response_def handleAnalyze_def finish_def succeeded_simps)
    with analyzeImage_Inr [of w calls api] Pair Inr show ?thesis by auto
  qed
qed

lemma handleAnalyze_video:
  assumes "getFileCategory (mimetype file) = ''video''"
  shows "\<exists>c api. succeeded (analysis_response w file)
          \<and> outbound_calls w file = (if sightengine_configured w then [video_check_url] else [])
          \<and> result_of (analysis_response w file) = video_analysisResult w file api
          \<and> video_response c (\<not> (sightengine_configured w \<and> vendor_success w)) api
          \<and> (\<not> (sightengine_configured w \<and> vendor_success w) \<longrightarrow>
               c = (if sightengine_configured w then video_error_confidence (random w)
                    else demo_confidence (random w)))"
proof -
  from analyzeVideo_Inr [of w] obtain c api where
    a: "analyzeVideo w = (if sightengine_configured w then [video_check_url] else [], Inr api)"
    and r: "video_response c (\<not> (sightengine_configured w \<and> vendor_success w)) api"
    and d: "\<not> (sightengine_configured w \<and> vendor_success w) \<longrightarrow>
               c = (if sightengine_configured w then video_error_confidence (random w)
                    else demo_confidence (random w))"
    by blast
  from a assms have "succeeded (analysis_response w file)"
    and "outbound_calls w file = (if sightengine_configured w then [video_check_url] else [])"
    and "result_of (analysis_response w file) = video_analysisResult w file api"
    by (simp_all add: analysis_response_def outbound_calls_def handleAnalyze_def finish_def
        succeeded_simps)
  with r d show ?thesis by blast
qed

lemma handleAnalyze_audio:
  assumes "getFileCategory (mimetype file) = ''audio''"
  shows "\<exists>api. succeeded (analysis_response w file)
          \<and> outbound_calls w file = []
          \<and> result_of (analysis_response w file) = audio_analysisResult w file api
          \<and> audio_response (audio_confidence (random w)) (random w 0 > 0.5) True api"
proof -
  from analyzeAudio_Inr [of w] obtain api where
    a: "analyzeAudio w = ([], Inr api)"
    and r: "audio_response (audio_confidence (random w)) (random w 0 > 0.5) True api"
    by blast
  from a assms have "succeeded (analysis_response w file)"
    and "outbound_calls w file = []"
    and "result_of (analysis_response w file) = audio_analysisResult w file api"
    by (simp_all add: analysis_response_def outbound_calls_def handleAnalyze_def finish_def
        succeeded_simps)
  with r show ?thesis by blast
qed


section \<open>Response shaping is a lookup by bucket\<close>



section \<open>Rounding to binary64\<close>

text \<open>
  Rounding picks the nearest multiple of the spacing, so it is determined by the binade and
  the nearest integer (\<open>double_eqI\<close>, which evaluates \<open>double\<close> on a given number),
  and it is monotone.
\<close>

lemma rne_bounds: "\<lfloor>q\<rfloor> \<le> rne q" "rne q \<le> \<lceil>q\<rceil>"
proof -
  show "\<lfloor>q\<rfloor> \<le> rne q" by (simp add: rne_def Let_def)
  have "q - of_int \<lfloor>q\<rfloor> > 0 \<Longrightarrow> \<lfloor>q\<rfloor> + 1 \<le> \<lceil>q\<rceil>"
    by linarith
  moreover have "\<lfloor>q\<rfloor> \<le> \<lceil>q\<rceil>" by (simp add: floor_le_ceiling)
  ultimately show "rne q \<le> \<lceil>q\<rceil>"
    by (auto simp: rne_def Let_def)
qed

lemma rne_of_int [simp]: "rne (of_int m) = m"
  by (simp add: rne_def)

lemma rne_eqI:
  assumes "\<bar>q - of_int m\<bar> < 1 / 2 \<or> (\<bar>q - of_int m\<bar> = 1 / 2 \<and> even m)"
  shows "rne q = m"
proof -
  from assms have "\<lfloor>q\<rfloor> = m \<or> \<lfloor>q\<rfloor> = m - 1" by linarith
  with assms show ?thesis
    by (auto simp: rne_def Let_def)
qed

lemma rne_mono:
  assumes "p \<le> q"
  shows "rne p \<le> rne q"
proof (cases "\<lfloor>p\<rfloor> = \<lfloor>q\<rfloor>")
  case True
  with assms show ?thesis by (auto simp: rne_def Let_def)
next
  case False
  with assms have "\<lfloor>p\<rfloor> + 1 \<le> \<lfloor>q\<rfloor>" using floor_mono [OF assms] by linarith
  moreover have "rne p \<le> \<lfloor>p\<rfloor> + 1" by (auto simp: rne_def Let_def)
  ultimately show ?thesis using rne_bounds(1) [of q] by linarith
qed

lemma search_props:
  fixes s hi :: int
  assumes "s < hi \<longrightarrow> x < (2::real) powi (s + 1)"
  shows "s - int n \<le> search n s x \<and> search n s x \<le> s
       \<and> (search n s x > s - int n \<longrightarrow> (2::real) powi (search n s x) \<le> x)
       \<and> (search n s x < hi \<longrightarrow> x < (2::real) powi (search n s x + 1))"
  using assms
proof (induction n arbitrary: s)
  case 0
  then show ?case by simp
next
  case (Suc n)
  show ?case
  proof (cases "(2::real) powi s \<le> x")
    case True
    with Suc.prems show ?thesis by simp
  next
    case False
    then have "s - 1 < hi \<longrightarrow> x < (2::real) powi (s - 1 + 1)" by simp
    from Suc.IH [OF this] False show ?thesis by auto
  qed
qed

lemma binade_props:
  "-1022 \<le> binade x" "binade x \<le> 1023"
  "binade x > -1022 \<Longrightarrow> 2 powi binade x \<le> x"
  "binade x < 1023 \<Longrightarrow> x < 2 powi (binade x + 1)"
  using search_props [of 1023 1023 x 2045] by (simp_all add: binade_def)

lemma binade_eqI:
  assumes "2 powi e \<le> x" "x < 2 powi (e + 1)" "-1022 \<le> e" "e \<le> 1023"
  shows "binade x = e"
proof (rule ccontr)
  assume ne: "binade x \<noteq> e"
  show False
  proof (cases "binade x < e")
    case True
    then have "binade x + 1 \<le> e" by simp
    then have "(2::real) powi (binade x + 1) \<le> 2 powi e"
      by (intro power_int_increasing) simp_all
    moreover from True assms(4) have "x < 2 powi (binade x + 1)"
      by (intro binade_props(4)) simp
    ultimately show False using assms(1) by linarith
  next
    case False
    with ne have "e + 1 \<le> binade x" by simp
    then have "(2::real) powi (e + 1) \<le> 2 powi binade x"
      by (intro power_int_increasing) simp_all
    moreover from False ne assms(3) have "2 powi binade x \<le> x"
      by (intro binade_props(3)) simp
    ultimately show False using assms(2) by linarith
  qed
qed

lemma double_eqI:
  assumes "2 powi e \<le> x" "x < 2 powi (e + 1)" "-1022 \<le> e" "e \<le> 1023"
    and "\<bar>x / 2 powi (e - 52) - of_int m\<bar> < 1 / 2
         \<or> (\<bar>x / 2 powi (e - 52) - of_int m\<bar> = 1 / 2 \<and> even m)"
  shows "double x = of_int m * 2 powi (e - 52)"
proof -
  have "(0::real) < 2 powi e" by simp
  with assms(1) have pos: "0 < x" by linarith
  then have "\<bar>x\<bar> = x" "sgn x = 1" by simp_all
  moreover have "binade x = e" by (rule binade_eqI) (use assms in auto)
  ultimately show ?thesis
    using rne_eqI [OF assms(5)] by (simp add: double_def Let_def)
qed

lemma double_pos:
  assumes "0 < x"
  shows "double x = of_int (rne (x / 2 powi (binade x - 52))) * 2 powi (binade x - 52)"
  using assms by (simp add: double_def Let_def)

lemma double_zero [simp]: "double 0 = 0"
  by (simp add: double_def)

lemma double_nonneg:
  assumes "0 \<le> x"
  shows "0 \<le> double x"
proof (cases "x = 0")
  case True
  then show ?thesis by simp
next
  case False
  with assms have pos: "0 < x" by simp
  have "0 \<le> x / 2 powi (binade x - 52)" using pos by simp
  then have "0 \<le> \<lfloor>x / 2 powi (binade x - 52)\<rfloor>" by simp
  with rne_bounds(1) [of "x / 2 powi (binade x - 52)"]
  have "0 \<le> rne (x / 2 powi (binade x - 52))" by linarith
  then show ?thesis by (simp add: double_pos [OF pos])
qed

lemma binade_mono:
  assumes "0 < x" "x \<le> y"
  shows "binade x \<le> binade y"
proof (rule ccontr)
  assume "\<not> binade x \<le> binade y"
  then have lt: "binade y < binade x" by simp
  with binade_props(1) [of y] have "2 powi binade x \<le> x"
    by (intro binade_props(3)) linarith
  moreover from lt binade_props(2) [of x] have "y < 2 powi (binade y + 1)"
    by (intro binade_props(4)) linarith
  moreover from lt have "(2::real) powi (binade y + 1) \<le> 2 powi binade x"
    by (intro power_int_increasing) simp_all
  ultimately show False using assms(2) by linarith
qed

lemma double_mono:
  assumes "0 \<le> x" "x \<le> y"
  shows "double x \<le> double y"
proof (cases "x = 0")
  case True
  with assms double_nonneg [of y] show ?thesis by simp
next
  case False
  with assms have px: "0 < x" and py: "0 < y" by simp_all
  let ?ux = "(2::real) powi (binade x - 52)"
  let ?uy = "(2::real) powi (binade y - 52)"
  have ux: "0 < ?ux" and uy: "0 < ?uy" by simp_all
  show ?thesis
  proof (cases "binade x = binade y")
    case True
    from assms(2) ux have "x / ?ux \<le> y / ?ux" by (simp add: divide_right_mono)
    from rne_mono [OF this] have "of_int (rne (x / ?ux)) * ?ux \<le> of_int (rne (y / ?ux)) * ?ux"
      using ux by (simp add: mult_right_mono)
    with True show ?thesis by (simp add: double_pos [OF px] double_pos [OF py])
  next
    case False
    with binade_mono [OF px assms(2)] have lt: "binade x < binade y" by simp
    have top: "(2::real) powi (binade x + 1) = 2 ^ 53 * ?ux"
    proof -
      have "binade x + 1 = 53 + (binade x - 52)" by simp
      then have "(2::real) powi (binade x + 1) = 2 powi (53 + (binade x - 52))"
        by (simp only:)
      also have "\<dots> = 2 powi 53 * ?ux" by (subst power_int_add) simp_all
      finally show ?thesis by simp
    qed
    have bot: "(2::real) powi binade y = 2 ^ 52 * ?uy"
    proof -
      have "binade y = 52 + (binade y - 52)" by simp
      then have "(2::real) powi binade y = 2 powi (52 + (binade y - 52))"
        by (simp only:)
      also have "\<dots> = 2 powi 52 * ?uy" by (subst power_int_add) simp_all
      finally show ?thesis by simp
    qed
    from lt binade_props(2) [of y] have "x < 2 powi (binade x + 1)"
      by (intro binade_props(4)) linarith
    with top ux have "x / ?ux < 2 ^ 53" by (simp add: pos_divide_less_eq)
    then have "x / ?ux \<le> of_int (2 ^ 53)" by simp
    then have "\<lceil>x / ?ux\<rceil> \<le> 2 ^ 53" by (simp only: ceiling_le_iff)
    with rne_bounds(2) [of "x / ?ux"] have "rne (x / ?ux) \<le> 2 ^ 53" by linarith
    then have "(of_int (rne (x / ?ux)) :: real) \<le> 2 ^ 53"
      by (metis of_int_le_iff of_int_numeral of_int_power)
    with ux have "of_int (rne (x / ?ux)) * ?ux \<le> 2 ^ 53 * ?ux" by (simp add: mult_right_mono)
    with top have a: "double x \<le> 2 powi (binade x + 1)" by (simp add: double_pos [OF px])
    from lt binade_props(1) [of x] have "2 powi binade y \<le> y"
      by (intro binade_props(3)) linarith
    with bot uy have "2 ^ 52 \<le> y / ?uy" by (simp add: pos_le_divide_eq)
    then have "of_int (2 ^ 52) \<le> y / ?uy" by simp
    then have "2 ^ 52 \<le> \<lfloor>y / ?uy\<rfloor>" by (simp only: le_floor_iff)
    with rne_bounds(1) [of "y / ?uy"] have "2 ^ 52 \<le> rne (y / ?uy)" by linarith
    then have "(2 ^ 52 :: real) \<le> of_int (rne (y / ?uy))"
      by (metis of_int_le_iff of_int_numeral of_int_power)
    with uy have "2 ^ 52 * ?uy \<le> of_int (rne (y / ?uy)) * ?uy" by (simp add: mult_right_mono)
    with bot have b: "2 powi binade y \<le> double y" by (simp add: double_pos [OF py])
    from lt have "(2::real) powi (binade x + 1) \<le> 2 powi binade y"
      by (intro power_int_increasing) simp_all
    with a b show ?thesis by linarith
  qed
qed

lemma binade_le:
  assumes "x < 2 powi (e + 1)" "-1022 \<le> e"
  shows "binade x \<le> e"
proof (rule ccontr)
  assume "\<not> binade x \<le> e"
  then have lt: "e + 1 \<le> binade x" by simp
  with assms(2) have "2 powi binade x \<le> x"
    by (intro binade_props(3)) linarith
  moreover from lt have "(2::real) powi (e + 1) \<le> 2 powi binade x"
    by (intro power_int_increasing) simp_all
  ultimately show False using assms(1) by linarith
qed

lemma binade_ge:
  assumes "2 powi e \<le> x" "e \<le> 1023"
  shows "e \<le> binade x"
proof (rule ccontr)
  assume "\<not> e \<le> binade x"
  then have lt: "binade x + 1 \<le> e" by simp
  with assms(2) have "x < 2 powi (binade x + 1)"
    by (intro binade_props(4)) linarith
  moreover from lt have "(2::real) powi (binade x + 1) \<le> 2 powi e"
    by (intro power_int_increasing) simp_all
  ultimately show False using assms(1) by linarith
qed

lemma double_multiple:
  assumes "binade (of_int m * 2 powi (e - 52)) = e" "0 < m"
  shows "double (of_int m * 2 powi (e - 52)) = of_int m * 2 powi (e - 52)"
proof -
  have "0 < of_int m * (2::real) powi (e - 52)" using assms(2) by simp
  from double_pos [OF this] assms(1) show ?thesis by simp
qed

lemma double_idem:
  assumes "0 \<le> x"
  shows "double (double x) = double x"
proof (cases "x = 0")
  case True
  then show ?thesis by simp
next
  case False
  with assms have px: "0 < x" by simp
  define e where "e = binade x"
  define u where "u = (2::real) powi (e - 52)"
  define m where "m = rne (x / u)"
  have u: "0 < u" by (simp add: u_def)
  have y: "double x = of_int m * u"
    using double_pos [OF px] by (simp add: m_def u_def e_def)
  have e: "-1022 \<le> e" "e \<le> 1023" using binade_props(1,2) [of x] by (simp_all add: e_def)
  have pe: "(2::real) powi e = 2 ^ 52 * u"
  proof -
    have "e = 52 + (e - 52)" by simp
    then have "(2::real) powi e = 2 powi (52 + (e - 52))" by (simp only:)
    also have "\<dots> = 2 powi 52 * u" unfolding u_def by (subst power_int_add) simp_all
    finally show ?thesis by simp
  qed
  have pe1: "(2::real) powi (e + 1) = 2 ^ 53 * u"
  proof -
    have "e + 1 = 53 + (e - 52)" by simp
    then have "(2::real) powi (e + 1) = 2 powi (53 + (e - 52))" by (simp only:)
    also have "\<dots> = 2 powi 53 * u" unfolding u_def by (subst power_int_add) simp_all
    finally show ?thesis by simp
  qed
  have m0: "0 \<le> m"
  proof -
    have "0 \<le> x / u" using px u by simp
    then have "0 \<le> \<lfloor>x / u\<rfloor>" by (simp only: zero_le_floor)
    with rne_bounds(1) [of "x / u"] show ?thesis unfolding m_def by linarith
  qed
  show ?thesis
  proof (cases "m = 0")
    case True
    with y show ?thesis by simp
  next
    case False
    with m0 have mp: "0 < m" by simp
    have lower: "e \<le> binade (of_int m * u)"
    proof (cases "e = -1022")
      case True
      with binade_props(1) [of "of_int m * u"] show ?thesis by simp
    next
      case False
      with e have "binade x > -1022" by (simp add: e_def)
      then have "2 powi e \<le> x" unfolding e_def by (rule binade_props(3))
      with pe u have "2 ^ 52 \<le> x / u" by (simp add: pos_le_divide_eq)
      then have "of_int (2 ^ 52) \<le> x / u" by simp
      then have "2 ^ 52 \<le> \<lfloor>x / u\<rfloor>" by (simp only: le_floor_iff)
      with rne_bounds(1) [of "x / u"] have "2 ^ 52 \<le> m" unfolding m_def by linarith
      then have "(2 ^ 52 :: real) \<le> of_int m"
        by (metis of_int_le_iff of_int_numeral of_int_power)
      with u have "2 ^ 52 * u \<le> of_int m * u" by (simp add: mult_right_mono)
      with pe have "2 powi e \<le> of_int m * u" by simp
      from binade_ge [OF this e(2)] show ?thesis .
    qed
    show ?thesis
    proof (cases "e = 1023 \<or> m < 2 ^ 53")
      case True
      have "binade (of_int m * u) \<le> e"
      proof (cases "e = 1023")
        case True
        with binade_props(2) [of "of_int m * u"] show ?thesis by simp
      next
        case False
        with True have "m < 2 ^ 53" by simp
        then have "(of_int m :: real) < 2 ^ 53"
          by (metis of_int_less_iff of_int_numeral of_int_power)
        with u have "of_int m * u < 2 ^ 53 * u" by (simp add: mult_strict_right_mono)
        with pe1 have "of_int m * u < 2 powi (e + 1)" by simp
        from binade_le [OF this e(1)] show ?thesis .
      qed
      with lower have "binade (of_int m * 2 powi (e - 52)) = e" by (simp add: u_def)
      from double_multiple [OF this mp] y show ?thesis by (simp add: u_def)
    next
      case False
      then have e': "e < 1023" and big: "2 ^ 53 \<le> m" using e(2) by simp_all
      from e' have "binade x < 1023" by (simp add: e_def)
      then have "x < 2 powi (e + 1)" unfolding e_def by (rule binade_props(4))
      with pe1 u have "x / u < 2 ^ 53" by (simp add: pos_divide_less_eq)
      then have "x / u \<le> of_int (2 ^ 53)" by simp
      then have "\<lceil>x / u\<rceil> \<le> 2 ^ 53" by (simp only: ceiling_le_iff)
      with rne_bounds(2) [of "x / u"] have "m \<le> 2 ^ 53" unfolding m_def by linarith
      with big have m: "m = 2 ^ 53" by simp
      then have "of_int m * u = 2 ^ 53 * u" by simp
      with pe1 have val: "of_int m * u = 2 powi (e + 1)" by simp
      have "double (2 powi (e + 1)) = of_int (2 ^ 52) * 2 powi (e + 1 - 52)"
      proof (rule double_eqI)
        show "(2::real) powi (e + 1) \<le> 2 powi (e + 1)" by simp
        show "(2::real) powi (e + 1) < 2 powi (e + 1 + 1)"
          by (intro power_int_strict_increasing) simp_all
        show "-1022 \<le> e + 1" using e(1) by simp
        show "e + 1 \<le> 1023" using e' by simp
        have "e + 1 = 52 + (e + 1 - 52)" by simp
        then have "(2::real) powi (e + 1) = 2 powi (52 + (e + 1 - 52))" by (simp only:)
        also have "\<dots> = 2 powi 52 * 2 powi (e + 1 - 52)" by (subst power_int_add) simp_all
        finally have "(2::real) powi (e + 1) / 2 powi (e + 1 - 52) = 2 ^ 52" by simp
        then show "\<bar>2 powi (e + 1) / 2 powi (e + 1 - 52) - real_of_int (2 ^ 52)\<bar> < 1 / 2
            \<or> \<bar>2 powi (e + 1) / 2 powi (e + 1 - 52) - real_of_int (2 ^ 52)\<bar> = 1 / 2 \<and> even ((2::int) ^ 52)"
          by simp
      qed
      also have "\<dots> = 2 powi (e + 1)"
      proof -
        have "e + 1 = 52 + (e + 1 - 52)" by simp
        then have "(2::real) powi (e + 1) = 2 powi (52 + (e + 1 - 52))" by (simp only:)
        also have "\<dots> = 2 powi 52 * 2 powi (e + 1 - 52)" by (subst power_int_add) simp_all
        finally show ?thesis by simp
      qed
      finally show ?thesis using y val by simp
    qed
  qed
qed

section \<open>The demo scores, rounded\<close>

text \<open>
  The doubles that the literals of the generators denote, and the value of each generator
  line at the second draws that the theorems below name.
\<close>

lemma double_literals:
  "double 0.8 = 3602879701896397 / 2 ^ 52"
  "double 0.3 = 5404319552844595 / 2 ^ 54"
  "double 0.7 = 3152519739159347 / 2 ^ 52"
  "double 0.4 = 3602879701896397 / 2 ^ 53"
  "double 0.1 = 3602879701896397 / 2 ^ 55"
  "double 0.25 = 1 / 2 ^ 2"
  "double 0.05 = 3602879701896397 / 2 ^ 56"
  "double 0.35 = 3152519739159347 / 2 ^ 53"
  "double 0.65 = 5854679515581645 / 2 ^ 53"
  "double 0.2 = 3602879701896397 / 2 ^ 54"
  "double 0.75 = 3 / 2 ^ 2"
  "double 0.95 = 4278419646001971 / 2 ^ 52"
  "double 0.825 = 3715469692580659 / 2 ^ 52"
  using double_eqI [of "-1" "0.8" 7205759403792794]
    double_eqI [of "-2" "0.3" 5404319552844595]
    double_eqI [of "-1" "0.7" 6305039478318694]
    double_eqI [of "-2" "0.4" 7205759403792794]
    double_eqI [of "-4" "0.1" 7205759403792794]
    double_eqI [of "-2" "0.25" 4503599627370496]
    double_eqI [of "-5" "0.05" 7205759403792794]
    double_eqI [of "-2" "0.35" 6305039478318694]
    double_eqI [of "-1" "0.65" 5854679515581645]
    double_eqI [of "-3" "0.2" 7205759403792794]
    double_eqI [of "-1" "0.75" 6755399441055744]
    double_eqI [of "-1" "0.95" 8556839292003942]
    double_eqI [of "-1" "0.825" 7430939385161318]
  by (simp_all add: power_int_def power_one_over)

lemma double_fixed:
  "double (3602879701896397 / 2 ^ 52) = 3602879701896397 / 2 ^ 52"
  "double (5404319552844595 / 2 ^ 54) = 5404319552844595 / 2 ^ 54"
  "double (3152519739159347 / 2 ^ 52) = 3152519739159347 / 2 ^ 52"
  "double (3602879701896397 / 2 ^ 53) = 3602879701896397 / 2 ^ 53"
  "double (3602879701896397 / 2 ^ 55) = 3602879701896397 / 2 ^ 55"
  "double (1 / 2 ^ 2) = 1 / 2 ^ 2"
  "double (3602879701896397 / 2 ^ 56) = 3602879701896397 / 2 ^ 56"
  "double (3152519739159347 / 2 ^ 53) = 3152519739159347 / 2 ^ 53"
  "double (5854679515581645 / 2 ^ 53) = 5854679515581645 / 2 ^ 53"
  "double (3602879701896397 / 2 ^ 54) = 3602879701896397 / 2 ^ 54"
  "double (3 / 2 ^ 2) = 3 / 2 ^ 2"
  "double (4278419646001971 / 2 ^ 52) = 4278419646001971 / 2 ^ 52"
  "double (3715469692580659 / 2 ^ 52) = 3715469692580659 / 2 ^ 52"
  using double_eqI [of "-1" "3602879701896397 / 2 ^ 52" 7205759403792794]
    double_eqI [of "-2" "5404319552844595 / 2 ^ 54" 5404319552844595]
    double_eqI [of "-1" "3152519739159347 / 2 ^ 52" 6305039478318694]
    double_eqI [of "-2" "3602879701896397 / 2 ^ 53" 7205759403792794]
    double_eqI [of "-4" "3602879701896397 / 2 ^ 55" 7205759403792794]
    double_eqI [of "-2" "1 / 2 ^ 2" 4503599627370496]
    double_eqI [of "-5" "3602879701896397 / 2 ^ 56" 7205759403792794]
    double_eqI [of "-2" "3152519739159347 / 2 ^ 53" 6305039478318694]
    double_eqI [of "-1" "5854679515581645 / 2 ^ 53" 5854679515581645]
    double_eqI [of "-3" "3602879701896397 / 2 ^ 54" 7205759403792794]
    double_eqI [of "-1" "3 / 2 ^ 2" 6755399441055744]
    double_eqI [of "-1" "4278419646001971 / 2 ^ 52" 8556839292003942]
    double_eqI [of "-1" "3715469692580659 / 2 ^ 52" 7430939385161318]
  by (simp_all add: power_int_def power_one_over)

lemma video_real_at_1:
  "fadd (fmul (1) (double 0.35)) (double 0.65) = 1"
proof -
  have p: "double (1 * (3152519739159347 / 2 ^ 53)) = 3152519739159347 / 2 ^ 53"
    using double_eqI [of "-2" "1 * (3152519739159347 / 2 ^ 53)" 6305039478318694]
    by (simp add: power_int_def power_one_over)
  have s: "double (3152519739159347 / 2 ^ 53 + 5854679515581645 / 2 ^ 53) = 1"
    using double_eqI [of "0" "3152519739159347 / 2 ^ 53 + 5854679515581645 / 2 ^ 53" 4503599627370496]
    by (simp add: power_int_def power_one_over)
  have "fadd (fmul (1) (double 0.35)) (double 0.65) = 1"
    by (simp only: fadd_def fmul_def double_literals p s)
  then show ?thesis .
qed

lemma audio_fake_at_1:
  "fadd (fmul (1) (double 0.25)) (double 0.7) = double 0.95"
proof -
  have p: "double (1 * (1 / 2 ^ 2)) = 1 / 2 ^ 2"
    using double_eqI [of "-2" "1 * (1 / 2 ^ 2)" 4503599627370496]
    by (simp add: power_int_def power_one_over)
  have s: "double (1 / 2 ^ 2 + 3152519739159347 / 2 ^ 52) = 4278419646001971 / 2 ^ 52"
    using double_eqI [of "-1" "1 / 2 ^ 2 + 3152519739159347 / 2 ^ 52" 8556839292003942]
    by (simp add: power_int_def power_one_over)
  have "fadd (fmul (1) (double 0.25)) (double 0.7) = 4278419646001971 / 2 ^ 52"
    by (simp only: fadd_def fmul_def double_literals p s)
  also have "\<dots> = double 0.95"
    by (simp only: double_literals)
  finally show ?thesis .
qed

lemma audio_real_at_1:
  "fadd (fmul (1) (double 0.2)) (double 0.75) = double 0.95"
proof -
  have p: "double (1 * (3602879701896397 / 2 ^ 54)) = 3602879701896397 / 2 ^ 54"
    using double_eqI [of "-3" "1 * (3602879701896397 / 2 ^ 54)" 7205759403792794]
    by (simp add: power_int_def power_one_over)
  have s: "double (3602879701896397 / 2 ^ 54 + 3 / 2 ^ 2) = 4278419646001971 / 2 ^ 52"
    using double_eqI [of "-1" "3602879701896397 / 2 ^ 54 + 3 / 2 ^ 2" 8556839292003942]
    by (simp add: power_int_def power_one_over)
  have "fadd (fmul (1) (double 0.2)) (double 0.75) = 4278419646001971 / 2 ^ 52"
    by (simp only: fadd_def fmul_def double_literals p s)
  also have "\<dots> = double 0.95"
    by (simp only: double_literals)
  finally show ?thesis .
qed

lemma image_fake_at_last:
  "fadd (fmul (1 - 1 / 2 ^ 53) (double 0.3)) (double 0.7) = 9007199254740991 / 2 ^ 53"
proof -
  have p: "double ((1 - 1 / 2 ^ 53) * (5404319552844595 / 2 ^ 54)) = 2702159776422297 / 2 ^ 53"
    using double_eqI [of "-2" "(1 - 1 / 2 ^ 53) * (5404319552844595 / 2 ^ 54)" 5404319552844594]
    by (simp add: power_int_def power_one_over)
  have s: "double (2702159776422297 / 2 ^ 53 + 3152519739159347 / 2 ^ 52) = 9007199254740991 / 2 ^ 53"
    using double_eqI [of "-1" "2702159776422297 / 2 ^ 53 + 3152519739159347 / 2 ^ 52" 9007199254740991]
    by (simp add: power_int_def power_one_over)
  have "fadd (fmul (1 - 1 / 2 ^ 53) (double 0.3)) (double 0.7) = 9007199254740991 / 2 ^ 53"
    by (simp only: fadd_def fmul_def double_literals p s)
  then show ?thesis .
qed

lemma image_real_at_last:
  "fadd (fmul (1 - 1 / 2 ^ 53) (double 0.4)) (double 0.1) = 1 / 2"
proof -
  have p: "double ((1 - 1 / 2 ^ 53) * (3602879701896397 / 2 ^ 53)) = 7205759403792793 / 2 ^ 54"
    using double_eqI [of "-2" "(1 - 1 / 2 ^ 53) * (3602879701896397 / 2 ^ 53)" 7205759403792793]
    by (simp add: power_int_def power_one_over)
  have s: "double (7205759403792793 / 2 ^ 54 + 3602879701896397 / 2 ^ 55) = 1 / 2 ^ 1"
    using double_eqI [of "-2" "7205759403792793 / 2 ^ 54 + 3602879701896397 / 2 ^ 55" 9007199254740992]
    by (simp add: power_int_def power_one_over)
  have "fadd (fmul (1 - 1 / 2 ^ 53) (double 0.4)) (double 0.1) = 1 / 2 ^ 1"
    by (simp only: fadd_def fmul_def double_literals p s)
  also have "\<dots> = 1 / 2"
    by (simp)
  finally show ?thesis .
qed

lemma video_fake_at_last:
  "fadd (fmul (1 - 1 / 2 ^ 53) (double 0.25)) (double 0.05) = double 0.3"
proof -
  have p: "double ((1 - 1 / 2 ^ 53) * (1 / 2 ^ 2)) = 9007199254740991 / 2 ^ 55"
    using double_eqI [of "-3" "(1 - 1 / 2 ^ 53) * (1 / 2 ^ 2)" 9007199254740991]
    by (simp add: power_int_def power_one_over)
  have s: "double (9007199254740991 / 2 ^ 55 + 3602879701896397 / 2 ^ 56) = 5404319552844595 / 2 ^ 54"
    using double_eqI [of "-2" "9007199254740991 / 2 ^ 55 + 3602879701896397 / 2 ^ 56" 5404319552844595]
    by (simp add: power_int_def power_one_over)
  have "fadd (fmul (1 - 1 / 2 ^ 53) (double 0.25)) (double 0.05) = 5404319552844595 / 2 ^ 54"
    by (simp only: fadd_def fmul_def double_literals p s)
  also have "\<dots> = double 0.3"
    by (simp only: double_literals)
  finally show ?thesis .
qed



lemma video_real_at_52:
  "fadd (fmul (1 - 1 / 2 ^ 52) (double 0.35)) (double 0.65) = 1"
proof -
  have p: "double ((1 - 1 / 2 ^ 52) * (3152519739159347 / 2 ^ 53)) = 6305039478318693 / 2 ^ 54"
    using double_eqI [of "-2" "(1 - 1 / 2 ^ 52) * (3152519739159347 / 2 ^ 53)" 6305039478318693]
    by (simp add: power_int_def power_one_over)
  have s: "double (6305039478318693 / 2 ^ 54 + 5854679515581645 / 2 ^ 53) = 1"
    using double_eqI [of "-1" "6305039478318693 / 2 ^ 54 + 5854679515581645 / 2 ^ 53" 9007199254740992]
    by (simp add: power_int_def power_one_over)
  have "fadd (fmul (1 - 1 / 2 ^ 52) (double 0.35)) (double 0.65) = 1"
    by (simp only: fadd_def fmul_def double_literals p s)
  then show ?thesis .
qed





lemma video_real_at_half:
  "fadd (fmul (1 / 2) (double 0.35)) (double 0.65) = double 0.825"
proof -
  have p: "double ((1 / 2) * (3152519739159347 / 2 ^ 53)) = 3152519739159347 / 2 ^ 54"
    using double_eqI [of "-3" "(1 / 2) * (3152519739159347 / 2 ^ 53)" 6305039478318694]
    by (simp add: power_int_def power_one_over)
  have s: "double (3152519739159347 / 2 ^ 54 + 5854679515581645 / 2 ^ 53) = 3715469692580659 / 2 ^ 52"
    using double_eqI [of "-1" "3152519739159347 / 2 ^ 54 + 5854679515581645 / 2 ^ 53" 7430939385161318]
    by (simp add: power_int_def power_one_over)
  have "fadd (fmul (1 / 2) (double 0.35)) (double 0.65) = 3715469692580659 / 2 ^ 52"
    by (simp only: fadd_def fmul_def double_literals p s)
  also have "\<dots> = double 0.825"
    by (simp only: double_literals)
  finally show ?thesis .
qed

lemma draws_simps: "draws a b 0 = a" "draws a b 1 = b"
  by (simp_all add: draws_def)

lemma deepfake_draws:
  "draws (7 / 8) b 0 > double 0.8" "\<not> draws (1 / 2) b 0 > double 0.8"
  by (simp_all only: draws_simps double_literals) simp_all


lemma double_fixed_literals:
  "double (double 0.7) = double 0.7" "double (double 0.1) = double 0.1"
  "double (double 0.05) = double 0.05" "double (double 0.65) = double 0.65"
  "double (double 0.75) = double 0.75"
  by (simp_all only: double_literals double_fixed)

lemma double_literal_order:
  "0 \<le> double 0.7" "0 \<le> double 0.1" "0 \<le> double 0.05" "0 \<le> double 0.65" "0 \<le> double 0.75"
  "double 0.3 \<le> 1" "double 0.95 \<le> 1" "double 0.3 \<le> 0.7"
  by (simp_all only: double_literals) simp_all

lemma double_literals_nonneg:
  "0 \<le> double 0.3" "0 \<le> double 0.4" "0 \<le> double 0.25" "0 \<le> double 0.35" "0 \<le> double 0.2"
  by (rule double_nonneg, simp)+

lemma scaled_range:
  assumes "0 \<le> r" "r \<le> rmax" "0 \<le> c" "0 \<le> d" "double d = d"
    and "fadd (fmul rmax c) d = u"
  shows "d \<le> fadd (fmul r c) d \<and> fadd (fmul r c) d \<le> u"
proof -
  from assms(1-3) have "0 \<le> r * c" "r * c \<le> rmax * c"
    by (simp_all add: mult_right_mono)
  then have p: "0 \<le> fmul r c" "fmul r c \<le> fmul rmax c"
    unfolding fmul_def by (simp_all add: double_nonneg double_mono)
  from p(1) assms(4) have "double d \<le> double (fmul r c + d)"
    by (intro double_mono) simp_all
  with assms(5) have lo: "d \<le> fadd (fmul r c) d" by (simp add: fadd_def)
  from p assms(4) have "fadd (fmul r c) d \<le> fadd (fmul rmax c) d"
    unfolding fadd_def by (intro double_mono) simp_all
  with lo assms(6) show ?thesis by simp
qed

lemma generator_branches:
  "r 0 > double 0.8 \<Longrightarrow> demo_confidence r = fadd (fmul (r 1) (double 0.3)) (double 0.7)"
  "\<not> r 0 > double 0.8 \<Longrightarrow> demo_confidence r = fadd (fmul (r 1) (double 0.4)) (double 0.1)"
  "r 0 > double 0.8 \<Longrightarrow>
     video_error_confidence r = fadd (fmul (r 1) (double 0.25)) (double 0.05)"
  "\<not> r 0 > double 0.8 \<Longrightarrow>
     video_error_confidence r = fadd (fmul (r 1) (double 0.35)) (double 0.65)"
  "r 0 > 0.5 \<Longrightarrow> audio_confidence r = fadd (fmul (r 1) (double 0.25)) (double 0.7)"
  "\<not> r 0 > 0.5 \<Longrightarrow> audio_confidence r = fadd (fmul (r 1) (double 0.2)) (double 0.75)"
  by (simp_all only: demo_confidence_def video_error_confidence_def audio_confidence_def
      Let_def if_True if_False)

lemma demo_ranges:
  assumes "0 \<le> r 1" "r 1 \<le> 1 - 1 / 2 ^ 53"
  shows "r 0 > double 0.8 \<Longrightarrow> double 0.7 \<le> demo_confidence r \<and> demo_confidence r < 1"
    and "\<not> r 0 > double 0.8 \<Longrightarrow> double 0.1 \<le> demo_confidence r \<and> demo_confidence r \<le> 1 / 2"
    and "r 0 > double 0.8 \<Longrightarrow>
           double 0.05 \<le> video_error_confidence r \<and> video_error_confidence r \<le> double 0.3"
    and "\<not> r 0 > double 0.8 \<Longrightarrow>
           double 0.65 \<le> video_error_confidence r \<and> video_error_confidence r \<le> 1"
    and "r 0 > 0.5 \<Longrightarrow> double 0.7 \<le> audio_confidence r \<and> audio_confidence r \<le> double 0.95"
    and "\<not> r 0 > 0.5 \<Longrightarrow> double 0.75 \<le> audio_confidence r \<and> audio_confidence r \<le> double 0.95"
proof -
  from assms(2) have le1: "r 1 \<le> 1" by simp
  have below: "(9007199254740991 / 2 ^ 53 :: real) < 1" by simp
  show "double 0.7 \<le> demo_confidence r \<and> demo_confidence r < 1" if "r 0 > double 0.8"
    using scaled_range [OF assms double_literals_nonneg(1) double_literal_order(1)
        double_fixed_literals(1) image_fake_at_last] below
    unfolding generator_branches(1) [of r, OF that] by linarith
  show "double 0.1 \<le> demo_confidence r \<and> demo_confidence r \<le> 1 / 2" if "\<not> r 0 > double 0.8"
    using scaled_range [OF assms double_literals_nonneg(2) double_literal_order(2)
        double_fixed_literals(2) image_real_at_last]
    unfolding generator_branches(2) [of r, OF that] .
  show "double 0.05 \<le> video_error_confidence r \<and> video_error_confidence r \<le> double 0.3"
    if "r 0 > double 0.8"
    using scaled_range [OF assms double_literals_nonneg(3) double_literal_order(3)
        double_fixed_literals(3) video_fake_at_last]
    unfolding generator_branches(3) [of r, OF that] .
  show "double 0.65 \<le> video_error_confidence r \<and> video_error_confidence r \<le> 1"
    if "\<not> r 0 > double 0.8"
    using scaled_range [OF assms(1) le1 double_literals_nonneg(4) double_literal_order(4)
        double_fixed_literals(4) video_real_at_1]
    unfolding generator_branches(4) [of r, OF that] .
  show "double 0.7 \<le> audio_confidence r \<and> audio_confidence r \<le> double 0.95" if "r 0 > 0.5"
    using scaled_range [OF assms(1) le1 double_literals_nonneg(3) double_literal_order(1)
        double_fixed_literals(1) audio_fake_at_1]
    unfolding generator_branches(5) [of r, OF that] .
  show "double 0.75 \<le> audio_confidence r \<and> audio_confidence r \<le> double 0.95"
    if "\<not> r 0 > 0.5"
    using scaled_range [OF assms(1) le1 double_literals_nonneg(5) double_literal_order(5)
        double_fixed_literals(5) audio_real_at_1]
    unfolding generator_branches(6) [of r, OF that] .
qed



text \<open>
  The flag \<open>isDeepfake\<close> compares the confidence with the literal 0.7, which denotes a
  double just below the real 0.7. No double lies between the two, so on a rounded
  confidence the comparison with the real 0.7 is the comparison of the program.
\<close>

lemma flag_threshold_on_doubles:
  assumes "0 \<le> x"
  shows "double x > 0.7 \<longleftrightarrow> double x > double 0.7"
proof
  have "double 0.7 \<le> 0.7" by (simp only: double_literals) simp
  then show "double x > double 0.7" if "double x > 0.7" using that by linarith
  show "double x > 0.7" if gt: "double x > double 0.7"
  proof (rule ccontr)
    assume "\<not> double x > 0.7"
    then have "double x \<le> 0.7" by simp
    with double_nonneg [OF assms] have "double (double x) \<le> double 0.7"
      by (intro double_mono) simp_all
    with double_idem [OF assms] gt show False by simp
  qed
qed

lemma generator_flag:
  assumes "0 \<le> r 1"
  shows "demo_confidence r > 0.7 \<longleftrightarrow> demo_confidence r > double 0.7"
    and "video_error_confidence r > 0.7 \<longleftrightarrow> video_error_confidence r > double 0.7"
    and "audio_confidence r > 0.7 \<longleftrightarrow> audio_confidence r > double 0.7"
proof -
  have sum: "fadd (fmul (r 1) c) d > 0.7 \<longleftrightarrow> fadd (fmul (r 1) c) d > double 0.7"
    if "0 \<le> c" "0 \<le> d" for c d
  proof -
    from assms that(1) have "0 \<le> fmul (r 1) c"
      unfolding fmul_def by (intro double_nonneg) simp
    with that(2) have "0 \<le> fmul (r 1) c + d" by simp
    from flag_threshold_on_doubles [OF this] show ?thesis by (simp only: fadd_def)
  qed
  show "demo_confidence r > 0.7 \<longleftrightarrow> demo_confidence r > double 0.7"
  proof (cases "r 0 > double 0.8")
    case True
    show ?thesis
      unfolding generator_branches(1) [of r, OF True]
      by (rule sum [OF double_literals_nonneg(1) double_literal_order(1)])
  next
    case False
    show ?thesis
      unfolding generator_branches(2) [of r, OF False]
      by (rule sum [OF double_literals_nonneg(2) double_literal_order(2)])
  qed
  show "video_error_confidence r > 0.7 \<longleftrightarrow> video_error_confidence r > double 0.7"
  proof (cases "r 0 > double 0.8")
    case True
    show ?thesis
      unfolding generator_branches(3) [of r, OF True]
      by (rule sum [OF double_literals_nonneg(3) double_literal_order(3)])
  next
    case False
    show ?thesis
      unfolding generator_branches(4) [of r, OF False]
      by (rule sum [OF double_literals_nonneg(4) double_literal_order(4)])
  qed
  show "audio_confidence r > 0.7 \<longleftrightarrow> audio_confidence r > double 0.7"
  proof (cases "r 0 > 0.5")
    case True
    show ?thesis
      unfolding generator_branches(5) [of r, OF True]
      by (rule sum [OF double_literals_nonneg(3) double_literal_order(1)])
  next
    case False
    show ?thesis
      unfolding generator_branches(6) [of r, OF False]
      by (rule sum [OF double_literals_nonneg(5) double_literal_order(5)])
  qed
qed

section \<open>Demo scores stay in range\<close>





section \<open>Evaluating the example inputs\<close>

lemma example_categories:
  "getFileCategory ''image/png'' = ''image''"
  "getFileCategory ''video/mp4'' = ''video''"
  "getFileCategory ''audio/wav'' = ''audio''"
  by (simp_all add: getFileCategory_def SUPPORTED_IMAGE_TYPES_def SUPPORTED_VIDEO_TYPES_def
      SUPPORTED_AUDIO_TYPES_def)

lemma example_world_simps:
  "sightengine_configured (example_world (Some ''key'') outcome r)"
  "\<not> sightengine_configured (example_world None outcome r)"
  "env_set (RESEMBLE_API_KEY (example_world (Some ''key'') outcome r))"
  "vendor_success (example_world key (Resolved (example_reply p)) r)"
  "\<not> vendor_success (example_world key example_timeout r)"
  "random (example_world key outcome r) = r"
  by (simp_all add: sightengine_configured_def vendor_success_def example_world_def env_set_def
      example_reply_def example_timeout_def nullish_def)

lemma example_image_api:
  "analyzeImage (example_world (Some ''key'') (Resolved (example_reply p)) r) =
     ([check_url],
      Inr (generateEnhancedImageResponse
             (number_text (example_world (Some ''key'') (Resolved (example_reply p)) r)) r
             (if p \<noteq> 0 then p else 0) False
             (JObj [(''width'', JStr ''unknown''), (''height'', JStr ''unknown''),
                    (''format'', JStr ''unknown'')])
             (JObj [(''status'', JStr ''success'')]) None))"
  by (simp add: analyzeImage_def example_world_def example_reply_def env_set_def nullish_def
      Let_def js_or_def opt_field_def)

lemma example_image_succeeds:
  "succeeded (analysis_response (example_world (Some ''key'') (Resolved (example_reply p)) r)
      (example_file ''image/png''))"
  by (simp add: analysis_response_def handleAnalyze_def example_categories example_file_def
      example_image_api finish_def succeeded_simps)


section \<open>The deepfake flag\<close>



section \<open>The fallback after a failed video call\<close>

lemma example_file_category:
  "getFileCategory (mimetype (example_file ''image/png'')) = ''image''"
  "getFileCategory (mimetype (example_file ''video/mp4'')) = ''video''"
  "getFileCategory (mimetype (example_file ''audio/wav'')) = ''audio''"
  by (simp_all add: example_file_def example_categories)

lemma example_video_failed:
  "\<not> vendor_success (example_world (Some ''key'') example_timeout r)"
  by (simp add: example_world_simps)

lemma video_fallback_fields:
  assumes cat: "getFileCategory (mimetype file) = ''video''"
    and conf: "sightengine_configured w"
    and fail: "\<not> vendor_success w"
  shows "succeeded (analysis_response w file)"
    and "is_demo (result_of (analysis_response w file))"
    and "result_field ''confidence'' w file = JNum (video_error_confidence (random w))"
    and "result_field ''isDeepfake'' w file = JBool (video_error_confidence (random w) > 0.7)"
proof -
  from handleAnalyze_video [OF cat, of w] conf fail obtain api where
    ok: "succeeded (analysis_response w file)"
    and r: "result_of (analysis_response w file) = video_analysisResult w file api"
    and i: "video_response (video_error_confidence (random w)) True api"
    by auto
  from ok show "succeeded (analysis_response w file)" .
  from r show "is_demo (result_of (analysis_response w file))"
    "result_field ''confidence'' w file = JNum (video_error_confidence (random w))"
    "result_field ''isDeepfake'' w file = JBool (video_error_confidence (random w) > 0.7)"
    by (simp_all add: result_field_def is_demo_def video_result_fields [OF i] analysisQuality_of_def)
qed

text \<open>
  C9: when both Sightengine credentials are set and the video call does not return a
  successful reply, the response is demo data whose confidence is drawn from [0.05, 0.30]
  on a deepfake draw (first draw above 0.8) and from [0.65, 1.00] otherwise, so that the
  flag \<open>isDeepfake = confidence > 0.7\<close> can only be true on a draw that is not a deepfake
  draw. The image fallback in the same world, and the video fallback without credentials,
  use the opposite scale: [0.7, 1.0) on a deepfake draw and [0.1, 0.5] otherwise. (A
  deepfake draw is the event that the first draw exceeds the double 0.8; the draws are
  doubles below 1, hence at most \<open>1 - 1 / 2 ^ 53\<close>; each endpoint is the double its decimal
  denotes.)
\<close>

theorem video_error_fallback_inverted:
  assumes rng: "\<forall>i. 0 \<le> random w i \<and> random w i \<le> 1 - 1 / 2 ^ 53"
    and cat: "getFileCategory (mimetype file) = ''video''"
    and conf: "sightengine_configured w"
    and fail: "\<not> vendor_success w"
  shows "succeeded (analysis_response w file)
       \<and> is_demo (result_of (analysis_response w file))
       \<and> result_field ''confidence'' w file = JNum (video_error_confidence (random w))
       \<and> result_field ''isDeepfake'' w file = JBool (video_error_confidence (random w) > 0.7)
       \<and> (random w 0 > double 0.8 \<longrightarrow>
            double 0.05 \<le> video_error_confidence (random w)
            \<and> video_error_confidence (random w) \<le> double 0.3
            \<and> result_field ''isDeepfake'' w file = JBool False)
       \<and> (\<not> random w 0 > double 0.8 \<longrightarrow>
            double 0.65 \<le> video_error_confidence (random w)
            \<and> video_error_confidence (random w) \<le> 1)
       \<and> (result_field ''isDeepfake'' w file = JBool True \<longrightarrow> \<not> random w 0 > double 0.8)
       \<and> (random w 0 > double 0.8 \<longrightarrow>
            double 0.7 \<le> demo_confidence (random w) \<and> demo_confidence (random w) < 1)
       \<and> (\<not> random w 0 > double 0.8 \<longrightarrow>
            double 0.1 \<le> demo_confidence (random w) \<and> demo_confidence (random w) \<le> 1 / 2)
       \<and> (\<forall>img. getFileCategory (mimetype img) = ''image'' \<and> succeeded (analysis_response w img)
              \<longrightarrow> result_field ''confidence'' w img = JNum (demo_confidence (random w))
                  \<and> result_field ''isDeepfake'' w img = JBool (demo_confidence (random w) > 0.7))
       \<and> (\<forall>w'. \<not> sightengine_configured w' \<longrightarrow>
              result_field ''confidence'' w' file = JNum (demo_confidence (random w')))"
proof -
  from rng have b: "0 \<le> random w 1" "random w 1 \<le> 1 - 1 / 2 ^ 53"
    by simp_all
  note fields = video_fallback_fields [OF cat conf fail]
  have image: "result_field ''confidence'' w img = JNum (demo_confidence (random w))
                  \<and> result_field ''isDeepfake'' w img = JBool (demo_confidence (random w) > 0.7)"
    if "getFileCategory (mimetype img) = ''image''" "succeeded (analysis_response w img)" for img
  proof -
    from handleAnalyze_image [OF that] fail obtain api' where
      r': "result_of (analysis_response w img) = image_analysisResult w img api'"
      and i': "image_response (demo_confidence (random w)) True api'"
      by auto
    from r' show ?thesis
      by (simp add: result_field_def image_result_fields [OF i'])
  qed
  have absent: "result_field ''confidence'' w' file = JNum (demo_confidence (random w'))"
    if "\<not> sightengine_configured w'" for w'
  proof -
    from handleAnalyze_video [OF cat, of w'] that obtain api' where
      r': "result_of (analysis_response w' file) = video_analysisResult w' file api'"
      and i': "video_response (demo_confidence (random w')) True api'"
      by auto
    from r' show ?thesis
      by (simp add: result_field_def video_result_fields [OF i'])
  qed
  note ranges = demo_ranges [of "random w", OF b]
  have low: "\<not> video_error_confidence (random w) > 0.7" if "random w 0 > double 0.8"
    using ranges(3) [OF that] double_literal_order(8) by linarith
  have deepfake: "double 0.05 \<le> video_error_confidence (random w)
            \<and> video_error_confidence (random w) \<le> double 0.3
            \<and> result_field ''isDeepfake'' w file = JBool False"
    if "random w 0 > double 0.8"
    using ranges(3) [OF that] low [OF that] fields(4) by simp
  have only: "\<not> random w 0 > double 0.8" if "result_field ''isDeepfake'' w file = JBool True"
    using that low fields(4) by auto
  from fields ranges(1,2,4) deepfake only image absent show ?thesis
    by blast
qed

theorem video_error_fallback_inverted_witness:
  "(\<forall>i. 0 \<le> random (example_world (Some ''key'') example_timeout (draws (1 / 2) (1 / 2))) i
        \<and> random (example_world (Some ''key'') example_timeout (draws (1 / 2) (1 / 2))) i
            \<le> 1 - 1 / 2 ^ 53)
   \<and> getFileCategory (mimetype (example_file ''video/mp4'')) = ''video''
   \<and> sightengine_configured (example_world (Some ''key'') example_timeout (draws (1 / 2) (1 / 2)))
   \<and> \<not> vendor_success (example_world (Some ''key'') example_timeout (draws (1 / 2) (1 / 2)))
   \<and> \<not> draws (1 / 2) (1 / 2) 0 > double 0.8
   \<and> result_field ''confidence''
        (example_world (Some ''key'') example_timeout (draws (1 / 2) (1 / 2)))
        (example_file ''video/mp4'') = JNum (double 0.825)
   \<and> result_field ''isDeepfake''
        (example_world (Some ''key'') example_timeout (draws (1 / 2) (1 / 2)))
        (example_file ''video/mp4'') = JBool True"
proof -
  have h: "\<forall>i. 0 \<le> random (example_world (Some ''key'') example_timeout (draws (1 / 2) (1 / 2))) i
        \<and> random (example_world (Some ''key'') example_timeout (draws (1 / 2) (1 / 2))) i
            \<le> 1 - 1 / 2 ^ 53"
    by (simp add: example_world_simps draws_def)
  have v: "video_error_confidence (draws (1 / 2) (1 / 2)) = double 0.825"
    unfolding generator_branches(4) [of "draws (1 / 2) (1 / 2)", OF deepfake_draws(2)]
      draws_simps by (rule video_real_at_half)
  have above: "double 0.825 > 0.7"
    by (simp only: double_literals) simp
  from video_error_fallback_inverted [OF h example_file_category(2) example_world_simps(1)
      example_video_failed] h v above deepfake_draws(2) [of "1 / 2"]
  show ?thesis
    by (simp add: example_world_simps example_file_category)
qed

text \<open>
  The range of the claim is half-open at 1.00, but the sum is rounded: with the second draw
  \<open>1 - 1 / 2 ^ 52\<close>, a double below 1, the fallback after a failed video call answers with
  the confidence 1 exactly.
\<close>

theorem video_error_fallback_reaches_one:
  "(\<forall>i. 0 \<le> random (example_world (Some ''key'') example_timeout
                      (draws (1 / 2) (1 - 1 / 2 ^ 52))) i
        \<and> random (example_world (Some ''key'') example_timeout
                      (draws (1 / 2) (1 - 1 / 2 ^ 52))) i < 1)
   \<and> getFileCategory (mimetype (example_file ''video/mp4'')) = ''video''
   \<and> sightengine_configured
        (example_world (Some ''key'') example_timeout (draws (1 / 2) (1 - 1 / 2 ^ 52)))
   \<and> \<not> vendor_success
        (example_world (Some ''key'') example_timeout (draws (1 / 2) (1 - 1 / 2 ^ 52)))
   \<and> \<not> draws (1 / 2) (1 - 1 / 2 ^ 52) 0 > double 0.8
   \<and> succeeded (analysis_response
        (example_world (Some ''key'') example_timeout (draws (1 / 2) (1 - 1 / 2 ^ 52)))
        (example_file ''video/mp4''))
   \<and> result_field ''confidence''
        (example_world (Some ''key'') example_timeout (draws (1 / 2) (1 - 1 / 2 ^ 52)))
        (example_file ''video/mp4'') = JNum 1
   \<and> result_field ''isDeepfake''
        (example_world (Some ''key'') example_timeout (draws (1 / 2) (1 - 1 / 2 ^ 52)))
        (example_file ''video/mp4'') = JBool True"
proof -
  have h: "\<forall>i. 0 \<le> random (example_world (Some ''key'') example_timeout
                      (draws (1 / 2) (1 - 1 / 2 ^ 52))) i
        \<and> random (example_world (Some ''key'') example_timeout
                      (draws (1 / 2) (1 - 1 / 2 ^ 52))) i < 1"
    by (simp add: example_world_simps draws_def)
  have v: "video_error_confidence (draws (1 / 2) (1 - 1 / 2 ^ 52)) = 1"
    unfolding generator_branches(4) [of "draws (1 / 2) (1 - 1 / 2 ^ 52)", OF deepfake_draws(2)]
      draws_simps by (rule video_real_at_52)
  from video_fallback_fields [OF example_file_category(2) example_world_simps(1)
      example_video_failed, of "draws (1 / 2) (1 - 1 / 2 ^ 52)"] h v
    deepfake_draws(2) [of "1 - 1 / 2 ^ 52"]
  show ?thesis
    by (simp add: example_world_simps example_file_category)
qed

section \<open>When a result is demo data\<close>

lemma example_world_size: "stat_size (example_world key outcome r) = 2048"
  by (simp add: example_world_def)

lemma RESEMBLE_API_KEY_unread:
  "analyzeImage (w\<lparr>RESEMBLE_API_KEY := k\<rparr>) = analyzeImage w"
  "analyzeVideo (w\<lparr>RESEMBLE_API_KEY := k\<rparr>) = analyzeVideo w"
  "analyzeAudio (w\<lparr>RESEMBLE_API_KEY := k\<rparr>) = analyzeAudio w"
  "image_analysisResult (w\<lparr>RESEMBLE_API_KEY := k\<rparr>) = image_analysisResult w"
  "video_analysisResult (w\<lparr>RESEMBLE_API_KEY := k\<rparr>) = video_analysisResult w"
  "audio_analysisResult (w\<lparr>RESEMBLE_API_KEY := k\<rparr>) = audio_analysisResult w"
  by (simp_all add: analyzeImage_def analyzeVideo_def analyzeAudio_def image_demo_response_def
      video_error_response_def image_errorDetails_def image_analysisResult_def
      video_analysisResult_def audio_analysisResult_def fun_eq_iff Let_def
      split: axios_outcome.splits)

lemma example_image_failed:
  "analyzeImage (example_world (Some ''key'') example_timeout r) =
     ([check_url],
      Inr (image_demo_response (example_world (Some ''key'') example_timeout r)
             (image_errorDetails (example_world (Some ''key'') example_timeout r) None JUndefined
                ''timeout of 30000ms exceeded'')))"
  by (simp add: analyzeImage_def example_world_def example_timeout_def env_set_def)

lemma example_image_failed_succeeds:
  "succeeded (analysis_response (example_world (Some ''key'') example_timeout r)
      (example_file ''image/png''))"
  by (simp add: analysis_response_def handleAnalyze_def example_file_category
      example_image_failed finish_def succeeded_simps)

text \<open>
  C2, as amended: a successful image or video response is demo data exactly when a
  Sightengine credential is missing or the vendor call does not return a successful reply
  (the demo data is also the fallback after a failed call); a successful audio response is
  always demo data; and \<open>RESEMBLE_API_KEY\<close> is not read: changing it changes nothing in
  what the handler posts and answers.
\<close>

theorem demo_data_conditions:
  assumes ok: "succeeded (analysis_response w file)"
  shows "(getFileCategory (mimetype file) = ''image'' \<or> getFileCategory (mimetype file) = ''video'' \<longrightarrow>
            (is_demo (result_of (analysis_response w file))
               \<longleftrightarrow> \<not> (sightengine_configured w \<and> vendor_success w)))
       \<and> (\<not> sightengine_configured w \<longrightarrow> is_demo (result_of (analysis_response w file)))
       \<and> (getFileCategory (mimetype file) = ''audio'' \<longrightarrow>
            is_demo (result_of (analysis_response w file)))
       \<and> (\<forall>k. handleAnalyze (w\<lparr>RESEMBLE_API_KEY := k\<rparr>) (Some file) = handleAnalyze w (Some file))"
proof -
  have image: "is_demo (result_of (analysis_response w file))
               \<longleftrightarrow> \<not> (sightengine_configured w \<and> vendor_success w)"
    if cat: "getFileCategory (mimetype file) = ''image''"
  proof -
    from handleAnalyze_image [OF cat ok] obtain c api where
      r: "result_of (analysis_response w file) = image_analysisResult w file api"
      and i: "image_response c (\<not> (sightengine_configured w \<and> vendor_success w)) api"
      by blast
    from r show ?thesis
      by (simp add: is_demo_def image_result_fields [OF i] analysisQuality_of_def)
  qed
  have video: "is_demo (result_of (analysis_response w file))
               \<longleftrightarrow> \<not> (sightengine_configured w \<and> vendor_success w)"
    if cat: "getFileCategory (mimetype file) = ''video''"
  proof -
    from handleAnalyze_video [OF cat, of w] obtain c api where
      r: "result_of (analysis_response w file) = video_analysisResult w file api"
      and i: "video_response c (\<not> (sightengine_configured w \<and> vendor_success w)) api"
      by blast
    from r show ?thesis
      by (simp add: is_demo_def video_result_fields [OF i] analysisQuality_of_def)
  qed
  have audio: "is_demo (result_of (analysis_response w file))"
    if cat: "getFileCategory (mimetype file) = ''audio''"
  proof -
    from handleAnalyze_audio [OF cat, of w] obtain api where
      r: "result_of (analysis_response w file) = audio_analysisResult w file api"
      and i: "audio_response (audio_confidence (random w)) (random w 0 > 0.5) True api"
      by blast
    from r show ?thesis
      by (simp add: is_demo_def audio_result_fields [OF i] analysisQuality_of_def)
  qed
  have other: "getFileCategory (mimetype file) = ''image''
      \<or> getFileCategory (mimetype file) = ''video'' \<or> getFileCategory (mimetype file) = ''audio''"
    using ok
    by (auto simp: analysis_response_def handleAnalyze_def succeeded_simps Let_def
        split: if_splits)
  have unread: "handleAnalyze (w\<lparr>RESEMBLE_API_KEY := k\<rparr>) (Some file) = handleAnalyze w (Some file)"
    for k
    by (simp add: handleAnalyze_def RESEMBLE_API_KEY_unread Let_def)
  from image video audio other unread show ?thesis by blast
qed

theorem demo_data_conditions_witness:
  "succeeded (analysis_response (example_world (Some ''key'') (Resolved (example_reply 0.65))
      (draws 0.5 0.5)) (example_file ''image/png''))
   \<and> getFileCategory (mimetype (example_file ''image/png'')) = ''image''
   \<and> sightengine_configured (example_world (Some ''key'') (Resolved (example_reply 0.65))
        (draws 0.5 0.5))
   \<and> vendor_success (example_world (Some ''key'') (Resolved (example_reply 0.65)) (draws 0.5 0.5))
   \<and> \<not> is_demo (result_of (analysis_response
          (example_world (Some ''key'') (Resolved (example_reply 0.65)) (draws 0.5 0.5))
          (example_file ''image/png'')))"
  using demo_data_conditions [OF example_image_succeeds, of "0.65" "draws 0.5 0.5"]
    example_image_succeeds [of "0.65" "draws 0.5 0.5"]
  by (simp add: example_file_category example_world_simps)

text \<open>
  The claim as stated fails: with both Sightengine credentials set, an image request whose
  vendor call fails is answered with demo data; and with \<open>RESEMBLE_API_KEY\<close> set, an audio
  request is answered with demo data.
\<close>

theorem demo_despite_credentials:
  "sightengine_configured (example_world (Some ''key'') example_timeout (draws 0.5 0.5))
   \<and> succeeded (analysis_response
        (example_world (Some ''key'') example_timeout (draws 0.5 0.5))
        (example_file ''image/png''))
   \<and> is_demo (result_of (analysis_response
        (example_world (Some ''key'') example_timeout (draws 0.5 0.5))
        (example_file ''image/png'')))
   \<and> env_set (RESEMBLE_API_KEY
        (example_world (Some ''key'') example_timeout (draws 0.5 0.5)))
   \<and> succeeded (analysis_response
        (example_world (Some ''key'') example_timeout (draws 0.5 0.5))
        (example_file ''audio/wav''))
   \<and> is_demo (result_of (analysis_response
        (example_world (Some ''key'') example_timeout (draws 0.5 0.5))
        (example_file ''audio/wav'')))"
proof -
  have image: "is_demo (result_of (analysis_response
        (example_world (Some ''key'') example_timeout (draws 0.5 0.5))
        (example_file ''image/png'')))"
    by (simp add: is_demo_def analysis_response_def handleAnalyze_def example_file_category
        example_image_failed finish_def succeeded_simps image_demo_response_def
        image_result_fields [OF image_responseI] analysisQuality_of_def)
  from handleAnalyze_audio [OF example_file_category(3),
      of "example_world (Some ''key'') example_timeout (draws 0.5 0.5)"]
  obtain api where
    ok: "succeeded (analysis_response
        (example_world (Some ''key'') example_timeout (draws 0.5 0.5))
        (example_file ''audio/wav''))"
    and r: "result_of (analysis_response
        (example_world (Some ''key'') example_timeout (draws 0.5 0.5))
        (example_file ''audio/wav''))
      = audio_analysisResult (example_world (Some ''key'') example_timeout (draws 0.5 0.5))
          (example_file ''audio/wav'') api"
    and i: "audio_response
      (audio_confidence (random (example_world (Some ''key'') example_timeout (draws 0.5 0.5))))
      (random (example_world (Some ''key'') example_timeout (draws 0.5 0.5)) 0 > 0.5)
      True api"
    by blast
  from r have audio: "is_demo (result_of (analysis_response
        (example_world (Some ''key'') example_timeout (draws 0.5 0.5))
        (example_file ''audio/wav'')))"
    by (simp add: is_demo_def audio_result_fields [OF i] analysisQuality_of_def)
  from image audio ok example_image_failed_succeeds show ?thesis
    by (simp add: example_world_simps)
qed

section \<open>Which vendor is called\<close>

text \<open>
  C3, as amended: an audio request posts to no vendor at all, whatever the credentials; a
  video request posts once to Sightengine's \<open>video/check-sync.json\<close> when both Sightengine
  credentials are set and to nothing otherwise; an image request posts once to
  \<open>check.json\<close> when both credentials are set and the stored file is not empty and not
  above 10 MB, and to nothing otherwise.
\<close>

theorem vendor_calls_by_category:
  "(getFileCategory (mimetype file) = ''audio'' \<longrightarrow> outbound_calls w file = [])
   \<and> (getFileCategory (mimetype file) = ''video'' \<longrightarrow>
        outbound_calls w file = (if sightengine_configured w then [video_check_url] else []))
   \<and> (getFileCategory (mimetype file) = ''image'' \<longrightarrow>
        outbound_calls w file =
          (if sightengine_configured w \<and> 0 < stat_size w \<and> stat_size w \<le> 10 * 1024 * 1024
           then [check_url] else []))"
proof -
  have audio: "outbound_calls w file = []" if cat: "getFileCategory (mimetype file) = ''audio''"
    using handleAnalyze_audio [OF cat, of w] by blast
  have video: "outbound_calls w file = (if sightengine_configured w then [video_check_url] else [])"
    if cat: "getFileCategory (mimetype file) = ''video''"
    using handleAnalyze_video [OF cat, of w] by blast
  have "fst (analyzeImage w) =
          (if sightengine_configured w \<and> 0 < stat_size w \<and> stat_size w \<le> 10 * 1024 * 1024
           then [check_url] else [])"
    by (simp add: analyzeImage_def sightengine_configured_def)
  then have image: "outbound_calls w file =
          (if sightengine_configured w \<and> 0 < stat_size w \<and> stat_size w \<le> 10 * 1024 * 1024
           then [check_url] else [])"
    if cat: "getFileCategory (mimetype file) = ''image''"
    using cat
    by (cases "analyzeImage w")
       (auto simp: outbound_calls_def handleAnalyze_def finish_def split: sum.splits)
  from audio video image show ?thesis by blast
qed

theorem vendor_calls_by_category_witness:
  "getFileCategory (mimetype (example_file ''image/png'')) = ''image''
   \<and> outbound_calls (example_world (Some ''key'') example_timeout (draws 0.5 0.5))
        (example_file ''image/png'') = [''https://api.sightengine.com/1.0/check.json'']
   \<and> getFileCategory (mimetype (example_file ''video/mp4'')) = ''video''
   \<and> outbound_calls (example_world (Some ''key'') example_timeout (draws 0.5 0.5))
        (example_file ''video/mp4'')
      = [''https://api.sightengine.com/1.0/video/check-sync.json'']"
  using vendor_calls_by_category [of "example_file ''image/png''"
      "example_world (Some ''key'') example_timeout (draws 0.5 0.5)"]
    vendor_calls_by_category [of "example_file ''video/mp4''"
      "example_world (Some ''key'') example_timeout (draws 0.5 0.5)"]
  by (simp add: example_file_category example_world_simps check_url_def video_check_url_def
      example_world_size)

text \<open>
  The claim as stated fails: with \<open>RESEMBLE_API_KEY\<close> set, an audio request is answered
  successfully without any outbound call.
\<close>

theorem audio_request_calls_no_vendor:
  "env_set (RESEMBLE_API_KEY (example_world (Some ''key'') example_timeout (draws 0.5 0.5)))
   \<and> getFileCategory (mimetype (example_file ''audio/wav'')) = ''audio''
   \<and> succeeded (analysis_response
        (example_world (Some ''key'') example_timeout (draws 0.5 0.5))
        (example_file ''audio/wav''))
   \<and> outbound_calls (example_world (Some ''key'') example_timeout (draws 0.5 0.5))
        (example_file ''audio/wav'') = []"
  using handleAnalyze_audio [OF example_file_category(3),
      of "example_world (Some ''key'') example_timeout (draws 0.5 0.5)"]
  by (auto simp: example_world_simps example_file_category)

section \<open>Upload validation\<close>

lemma unsupported_iff: "getFileCategory m = ''unsupported'' \<longleftrightarrow> m \<notin> set ALL_SUPPORTED_TYPES"
  by (simp add: getFileCategory_def ALL_SUPPORTED_TYPES_def)

lemma fileFilter_unsupported:
  assumes "getFileCategory (mimetype file) = ''unsupported''"
  shows "\<exists>err. fileFilter (Some file) = Inl err"
  using assms by (simp add: fileFilter_def Let_def split: option.splits)

lemma fileFilter_accepts: "fileFilter f = Inr a \<Longrightarrow> a"
  by (auto simp: fileFilter_def Let_def split: option.splits if_splits)

lemma upload_single_unsupported:
  assumes "getFileCategory (mimetype file) = ''unsupported''"
  shows "\<exists>err. upload_single (Some file) = Inl err"
proof -
  from assms have "getFileCategory (mimetype (file\<lparr>fsize := None\<rparr>)) = ''unsupported''"
    by simp
  from fileFilter_unsupported [OF this] show ?thesis
    by (auto simp: upload_single_def)
qed

lemma upload_single_oversize:
  assumes "fsize file = Some n" and "n > 10 * 1024 * 1024"
  shows "\<exists>err. upload_single (Some file) = Inl err"
proof (cases "fileFilter (Some (file\<lparr>fsize := None\<rparr>))")
  case (Inl err)
  then show ?thesis by (simp add: upload_single_def)
next
  case (Inr a)
  with fileFilter_accepts [OF Inr] assms show ?thesis
    by (simp add: upload_single_def limits_fileSize_def)
qed

lemma api_analyze_rejected:
  assumes "upload_single part = Inl err"
  shows "api_analyze w part = ([], json_failure 400 err)"
  using assms by (simp add: api_analyze_def)

lemma failure_fields:
  "field ''success'' (response_body (json_failure code err)) = JBool False"
  "status_code (json_failure code err) = code"
  "field ''success'' (response_body (json_rejection code err msg)) = JBool False"
  "status_code (json_rejection code err msg) = code"
  by (simp_all add: json_failure_def json_rejection_def)

lemma validate_request_rejects:
  "validate_request req = Some resp \<Longrightarrow> field ''success'' (response_body resp) = JBool False"
  by (auto simp: validate_request_def failure_fields Let_def split: if_splits)

text \<open>
  C4: a mime type is unsupported exactly when it is outside the three whitelists; for a
  file of an unsupported type \<open>fileFilter\<close> calls back with an error, so multer fails and
  the analyze route answers 400 with \<open>success = false\<close> without calling a vendor; a file
  of more than 10 * 1024 * 1024 bytes makes multer fail as well (by \<open>fileFilter\<close> or by the
  size limit), with the same answer; and behind the validation middleware either kind of
  upload is answered with \<open>success = false\<close>.
\<close>

theorem upload_validation_rejects:
  "(getFileCategory m = ''unsupported'' \<longleftrightarrow> m \<notin> set ALL_SUPPORTED_TYPES)
   \<and> limits_fileSize = 10 * 1024 * 1024
   \<and> (getFileCategory (mimetype file) = ''unsupported''
        \<or> (\<exists>n. fsize file = Some n \<and> n > 10 * 1024 * 1024) \<longrightarrow>
        (\<exists>err. upload_single (Some file) = Inl err
            \<and> api_analyze w (Some file) = ([], json_failure 400 err))
        \<and> status_code (snd (api_analyze w (Some file))) = 400
        \<and> field ''success'' (response_body (snd (api_analyze w (Some file)))) = JBool False
        \<and> (file_part req = Some file \<longrightarrow>
              field ''success'' (response_body (snd (post_api_analyze w req))) = JBool False))
   \<and> (getFileCategory (mimetype file) = ''unsupported'' \<longrightarrow>
        (\<exists>err. fileFilter (Some file) = Inl err))"
proof -
  have rejected: "(\<exists>err. upload_single (Some file) = Inl err
            \<and> api_analyze w (Some file) = ([], json_failure 400 err))
        \<and> status_code (snd (api_analyze w (Some file))) = 400
        \<and> field ''success'' (response_body (snd (api_analyze w (Some file)))) = JBool False
        \<and> (file_part req = Some file \<longrightarrow>
              field ''success'' (response_body (snd (post_api_analyze w req))) = JBool False)"
    if bad: "getFileCategory (mimetype file) = ''unsupported''
        \<or> (\<exists>n. fsize file = Some n \<and> n > 10 * 1024 * 1024)"
  proof -
    from bad upload_single_unsupported upload_single_oversize
    obtain err where e: "upload_single (Some file) = Inl err" by blast
    note a = api_analyze_rejected [OF e, of w]
    have "field ''success'' (response_body (snd (post_api_analyze w req))) = JBool False"
      if "file_part req = Some file"
    proof (cases "validate_request req")
      case None
      with that a show ?thesis by (simp add: post_api_analyze_def failure_fields)
    next
      case (Some resp)
      with validate_request_rejects [OF Some] show ?thesis
        by (simp add: post_api_analyze_def)
    qed
    with e a show ?thesis by (simp add: failure_fields)
  qed
  from unsupported_iff rejected fileFilter_unsupported show ?thesis
    by (simp add: limits_fileSize_def)
qed

lemma example_pdf_unsupported:
  "getFileCategory (mimetype (example_file ''application/pdf'')) = ''unsupported''"
  by (simp add: example_file_def getFileCategory_def SUPPORTED_IMAGE_TYPES_def
      SUPPORTED_VIDEO_TYPES_def SUPPORTED_AUDIO_TYPES_def)

theorem upload_validation_rejects_witness:
  "getFileCategory (mimetype (example_file ''application/pdf'')) = ''unsupported''
   \<and> ''application/pdf'' \<notin> set ALL_SUPPORTED_TYPES
   \<and> api_analyze (example_world None example_timeout (draws 0.5 0.5))
       (Some (example_file ''application/pdf''))
       = ([], json_failure 400 ''Unsupported file type: application/pdf'')
   \<and> fsize ((example_file ''image/png'')\<lparr>fsize := Some 10485761\<rparr>) = Some 10485761
   \<and> (10485761::nat) > 10 * 1024 * 1024
   \<and> field ''success''
        (response_body (snd (api_analyze (example_world None example_timeout (draws 0.5 0.5))
           (Some ((example_file ''image/png'')\<lparr>fsize := Some 10485761\<rparr>))))) = JBool False"
proof -
  have u: "upload_single (Some (example_file ''application/pdf''))
             = Inl ''Unsupported file type: application/pdf''"
    using example_pdf_unsupported
    by (simp add: upload_single_def fileFilter_def Let_def example_file_def)
  have big: "\<exists>n. fsize ((example_file ''image/png'')\<lparr>fsize := Some 10485761\<rparr>) = Some n
               \<and> n > 10 * 1024 * 1024"
    by simp
  from upload_validation_rejects [of "''application/pdf''" "example_file ''application/pdf''"
      "example_world None example_timeout (draws 0.5 0.5)"]
    upload_validation_rejects [of "''application/pdf''"
      "(example_file ''image/png'')\<lparr>fsize := Some 10485761\<rparr>"
      "example_world None example_timeout (draws 0.5 0.5)"]
    example_pdf_unsupported u big
  show ?thesis by (auto simp: example_file_def)
qed

section \<open>Cleaning up old uploads\<close>

lemma ageInHours_stale:
  "real_of_int (now - mtime e) / (1000 * 60 * 60) > 24 \<longleftrightarrow> stale now e"
proof -
  have "real_of_int (now - mtime e) / (1000 * 60 * 60) > 24
          \<longleftrightarrow> real_of_int (now - mtime e) > real_of_int (24 * 60 * 60 * 1000)"
    by (simp add: field_simps)
  also have "\<dots> \<longleftrightarrow> now - mtime e > 24 * 60 * 60 * 1000"
    by (simp only: of_int_less_iff)
  finally show ?thesis by (simp add: stale_def)
qed

lemma one_entry_per_name:
  assumes "distinct (map fst dir)" and "(name, e) \<in> set dir"
  shows "length (filter (\<lambda>p. fst p = name) dir) = 1"
  using assms
proof (induction dir)
  case Nil
  then show ?case by simp
next
  case (Cons p dir)
  show ?case
  proof (cases "fst p = name")
    case True
    with Cons.prems have "name \<notin> fst ` set dir" by auto
    then have "filter (\<lambda>p. fst p = name) dir = []"
      by (auto simp: filter_empty_conv)
    with True show ?thesis by simp
  next
    case False
    with Cons show ?thesis by auto
  qed
qed

lemma cleanup_loop_regular:
  assumes "distinct (map fst dir)"
    and "distinct names"
    and "set names \<subseteq> fst ` set dir"
    and "\<forall>e \<in> snd ` set dir. kind e = RegularFile"
  shows "cleanup_loop now names dir cnt =
           (filter (\<lambda>p. \<not> (fst p \<in> set names \<and> stale now (snd p))) dir,
            Inr (cnt + length (filter (\<lambda>p. fst p \<in> set names \<and> stale now (snd p)) dir)))"
  using assms
proof (induction names arbitrary: dir cnt)
  case Nil
  then show ?case by simp
next
  case (Cons name names)
  from Cons.prems(3) obtain stats where mem: "(name, stats) \<in> set dir" by auto
  with Cons.prems(1) have look: "map_of dir name = Some stats" by simp
  from mem Cons.prems(4) have reg: "kind stats = RegularFile" by force
  have unique: "e = stats" if "(name, e) \<in> set dir" for e
    using that mem Cons.prems(1) by (meson eq_key_imp_eq_value)
  show ?case
  proof (cases "stale now stats")
    case True
    let ?dir' = "AList.delete name dir"
    have d': "?dir' = filter (\<lambda>p. fst p \<noteq> name) dir"
      unfolding AList.delete_eq by (rule filter_cong) auto
    have p1: "distinct (map fst ?dir')"
      using Cons.prems(1) by (simp add: AList.distinct_delete)
    have p2: "distinct names" using Cons.prems(2) by simp
    have p3: "set names \<subseteq> fst ` set ?dir'"
    proof
      fix x assume x: "x \<in> set names"
      with Cons.prems(3) obtain e where "(x, e) \<in> set dir" by auto
      moreover from x Cons.prems(2) have "x \<noteq> name" by auto
      ultimately have "(x, e) \<in> set ?dir'" by (simp add: d')
      then show "x \<in> fst ` set ?dir'" by force
    qed
    have p4: "\<forall>e \<in> snd ` set ?dir'. kind e = RegularFile"
      using Cons.prems(4) by (auto simp: d')
    have kept: "filter (\<lambda>p. \<not> (fst p \<in> set names \<and> stale now (snd p))) ?dir'
                  = filter (\<lambda>p. \<not> (fst p \<in> set (name # names) \<and> stale now (snd p))) dir"
      unfolding d' filter_filter
      by (rule filter_cong) (use True unique in auto)
    have "length (filter (\<lambda>p. fst p \<in> set (name # names) \<and> stale now (snd p)) dir)
            = length (filter (\<lambda>p. fst p = name)
                (filter (\<lambda>p. fst p \<in> set (name # names) \<and> stale now (snd p)) dir))
              + length (filter (\<lambda>p. \<not> fst p = name)
                (filter (\<lambda>p. fst p \<in> set (name # names) \<and> stale now (snd p)) dir))"
      by (simp only: sum_length_filter_compl)
    also have "filter (\<lambda>p. fst p = name)
                (filter (\<lambda>p. fst p \<in> set (name # names) \<and> stale now (snd p)) dir)
               = filter (\<lambda>p. fst p = name) dir"
      unfolding filter_filter by (rule filter_cong) (use True unique in auto)
    also have "filter (\<lambda>p. \<not> fst p = name)
                (filter (\<lambda>p. fst p \<in> set (name # names) \<and> stale now (snd p)) dir)
               = filter (\<lambda>p. fst p \<in> set names \<and> stale now (snd p)) ?dir'"
      unfolding d' filter_filter by (rule filter_cong) auto
    finally have count: "length (filter (\<lambda>p. fst p \<in> set (name # names) \<and> stale now (snd p)) dir)
            = 1 + length (filter (\<lambda>p. fst p \<in> set names \<and> stale now (snd p)) ?dir')"
      using one_entry_per_name [OF Cons.prems(1) mem] by simp
    from True look reg have "cleanup_loop now (name # names) dir cnt
            = cleanup_loop now names ?dir' (cnt + 1)"
      by (simp add: unlinkSync_def stale_def)
    also note Cons.IH [OF p1 p2 p3 p4]
    finally show ?thesis using kept count by simp
  next
    case False
    have p3: "set names \<subseteq> fst ` set dir" using Cons.prems(3) by simp
    have p2: "distinct names" using Cons.prems(2) by simp
    have kept: "filter (\<lambda>p. \<not> (fst p \<in> set names \<and> stale now (snd p))) dir
                  = filter (\<lambda>p. \<not> (fst p \<in> set (name # names) \<and> stale now (snd p))) dir"
      by (rule filter_cong) (use False unique in auto)
    have count: "filter (\<lambda>p. fst p \<in> set names \<and> stale now (snd p)) dir
                  = filter (\<lambda>p. fst p \<in> set (name # names) \<and> stale now (snd p)) dir"
      by (rule filter_cong) (use False unique in auto)
    from False look have "cleanup_loop now (name # names) dir cnt
            = cleanup_loop now names dir cnt"
      by (simp add: stale_def)
    also note Cons.IH [OF Cons.prems(1) p2 p3 Cons.prems(4)]
    finally show ?thesis using kept count by simp
  qed
qed


text \<open>
  C7, as amended: when the uploads directory exists and holds regular files only, the
  endpoint removes exactly the entries whose modification time is more than 24 hours before
  the current time, leaves every other entry as it was, and answers success with the number
  removed; without an uploads directory it answers success with a message and no count.
\<close>

theorem cleanup_removes_stale_files:
  assumes "distinct (map fst dir)"
    and "list_all (\<lambda>p. kind (snd p) = RegularFile) dir"
  shows "cleanup_files now (Some dir) =
           (Some (filter (\<lambda>p. \<not> stale now (snd p)) dir),
            \<lparr>status_code = 200,
             response_body =
               JObj [(''success'', JBool True),
                     (''message'', JStr (''Cleaned up ''
                        @ nat_text (length (filter (\<lambda>p. stale now (snd p)) dir))
                        @ '' old files'')),
                     (''cleanedCount'',
                        JNum (real (length (filter (\<lambda>p. stale now (snd p)) dir))))]\<rparr>)
       \<and> cleanup_files now None =
           (None,
            \<lparr>status_code = 200,
             response_body =
               JObj [(''success'', JBool True),
                     (''message'', JStr ''No uploads directory found'')]\<rparr>)"
proof -
  from assms(2) have regular: "\<forall>e \<in> snd ` set dir. kind e = RegularFile"
    by (auto simp: list_all_iff)
  have names: "distinct (map fst dir)" "set (map fst dir) \<subseteq> fst ` set dir"
    using assms(1) by simp_all
  have kept: "filter (\<lambda>p. \<not> (fst p \<in> set (map fst dir) \<and> stale now (snd p))) dir
                = filter (\<lambda>p. \<not> stale now (snd p)) dir"
    by (rule filter_cong) auto
  have gone: "filter (\<lambda>p. fst p \<in> set (map fst dir) \<and> stale now (snd p)) dir
                = filter (\<lambda>p. stale now (snd p)) dir"
    by (rule filter_cong) auto
  from cleanup_loop_regular [OF assms(1) names regular, of now 0] kept gone
  show ?thesis by (simp add: cleanup_files_def)
qed

theorem cleanup_removes_stale_files_witness:
  "distinct (map fst example_directory)
   \<and> list_all (\<lambda>p. kind (snd p) = RegularFile) example_directory
   \<and> fst (cleanup_files 172800000 (Some example_directory))
       = Some [(''2-b.png'', \<lparr>mtime = 86400000, kind = RegularFile\<rparr>)]
   \<and> field ''success'' (response_body (snd (cleanup_files 172800000 (Some example_directory))))
       = JBool True
   \<and> field ''cleanedCount'' (response_body (snd (cleanup_files 172800000 (Some example_directory))))
       = JNum 2"
proof -
  have d: "distinct (map fst example_directory)"
    by (simp add: example_directory_def)
  have r: "list_all (\<lambda>p. kind (snd p) = RegularFile) example_directory"
    by (simp add: example_directory_def)
  from cleanup_removes_stale_files [OF d r, of 172800000] d r show ?thesis
    by (simp add: example_directory_def stale_def)
qed

text \<open>
  The claim as stated fails: without an uploads directory the answer carries no count; and
  a stale subdirectory makes \<open>unlinkSync\<close> throw, so that the endpoint answers 500 and a
  stale file listed after it stays.
\<close>

theorem cleanup_without_count_or_incomplete:
  "field ''success'' (response_body (snd (cleanup_files 172800000 None))) = JBool True
   \<and> field ''cleanedCount'' (response_body (snd (cleanup_files 172800000 None))) = JUndefined
   \<and> stale 172800000 \<lparr>mtime = 0, kind = RegularFile\<rparr>
   \<and> cleanup_files 172800000
        (Some [(''old-dir'', \<lparr>mtime = 0, kind = Directory\<rparr>),
               (''old.png'', \<lparr>mtime = 0, kind = RegularFile\<rparr>)])
       = (Some [(''old-dir'', \<lparr>mtime = 0, kind = Directory\<rparr>),
                (''old.png'', \<lparr>mtime = 0, kind = RegularFile\<rparr>)],
          json_failure 500 ''Cleanup failed'')"
  by (simp add: cleanup_files_def stale_def unlinkSync_def)

section \<open>The shape of a result\<close>

lemma is_string_array_strings: "is_string_array (strings xs)"
  by (simp add: strings_def list_all_iff)

lemma risk_and_category_values:
  "getRiskLevel c \<in> {''LOW'', ''MEDIUM'', ''HIGH'', ''CRITICAL''}"
  "getConfidenceCategory c \<in> {''VERY_LOW'', ''LOW'', ''MEDIUM'', ''HIGH'', ''VERY_HIGH''}"
  by (simp_all add: getRiskLevel_def getConfidenceCategory_def)

lemma image_response_shape:
  assumes "image_response c d resp"
  shows "is_object resp"
    and "is_object (field ''processingDetails'' resp)"
    and "is_object (field ''imageAnalysis'' resp)"
    and "field ''limitations'' resp = strings (generateLimitations d c)"
  using assms unfolding image_response_def
  by (auto simp: generateEnhancedImageResponse_def Let_def)

lemma video_response_shape:
  assumes "video_response c d resp"
  shows "is_object resp"
    and "is_object (field ''processingDetails'' resp)"
    and "is_object (field ''videoAnalysis'' resp)"
    and "field ''limitations'' resp = strings (generateLimitations d c)"
    and "field ''temporalAnalysis'' (field ''videoAnalysis'' resp) = JUndefined"
    and "field ''analyzedFrames'' (field ''frameAnalysis'' (field ''videoAnalysis'' resp))
           = JUndefined"
    and "field ''frameRate'' (field ''frameAnalysis'' (field ''videoAnalysis'' resp)) = JUndefined"
    and "field ''keyFrames'' (field ''frameAnalysis'' (field ''videoAnalysis'' resp)) = JUndefined"
  using assms unfolding video_response_def
  by (auto simp: generateEnhancedVideoResponse_def Let_def)

lemma audio_response_shape:
  assumes "audio_response c s d resp"
  shows "is_object resp"
    and "is_object (field ''processingDetails'' resp)"
    and "is_object (field ''audioAnalysis'' resp)"
    and "field ''limitations'' resp = strings (generateLimitations d c)"
    and "field ''synthesisIndicators'' (field ''audioAnalysis'' resp) = JUndefined"
    and "field ''technicalMetrics'' (field ''audioAnalysis'' resp) = JUndefined"
    and "field ''emotionStability'' (field ''voiceCharacteristics'' (field ''audioAnalysis'' resp))
           = JUndefined"
  using assms unfolding audio_response_def
  by (auto simp: generateEnhancedAudioResponse_def Let_def)

lemma analysisQuality_values:
  "analysisQuality_of d = JStr ''DEMO'' \<or> analysisQuality_of d = JStr ''API''"
  by (simp add: analysisQuality_of_def)

lemma image_result_shape:
  assumes "image_response c d api"
  shows "top_level_shape ''image'' (image_analysisResult w file api)"
  using risk_and_category_values [of c] analysisQuality_values [of d]
  by (auto simp: top_level_shape_def has_base_fields_def image_analysisResult_def
      image_response_fields [OF assms] image_response_shape [OF assms] is_string_array_strings)

lemma video_result_shape:
  assumes "video_response c d api"
  shows "top_level_shape ''video'' (video_analysisResult w file api)"
  using risk_and_category_values [of c] analysisQuality_values [of d]
  by (auto simp: top_level_shape_def has_base_fields_def video_analysisResult_def
      video_response_fields [OF assms] video_response_shape [OF assms] is_string_array_strings)

lemma audio_result_shape:
  assumes "audio_response c s d api"
  shows "top_level_shape ''audio'' (audio_analysisResult w file api)"
  using risk_and_category_values [of c] analysisQuality_values [of d]
  by (auto simp: top_level_shape_def has_base_fields_def audio_analysisResult_def
      audio_response_fields [OF assms] audio_response_shape [OF assms] is_string_array_strings)

lemma analysis_result_top_level:
  assumes ok: "succeeded (analysis_response w file)"
  shows "top_level_shape (getFileCategory (mimetype file)) (result_of (analysis_response w file))"
proof -
  consider (image) "getFileCategory (mimetype file) = ''image''"
    | (video) "getFileCategory (mimetype file) = ''video''"
    | (audio) "getFileCategory (mimetype file) = ''audio''"
    | (other) "getFileCategory (mimetype file) \<notin> {''image'', ''video'', ''audio''}"
    by auto
  then show ?thesis
  proof cases
    case image
    from handleAnalyze_image [OF image ok] image image_result_shape show ?thesis by auto
  next
    case video
    from handleAnalyze_video [OF video, of w] video video_result_shape show ?thesis by auto
  next
    case audio
    from handleAnalyze_audio [OF audio, of w] audio audio_result_shape show ?thesis by auto
  next
    case other
    with ok show ?thesis
      by (simp add: analysis_response_def handleAnalyze_def succeeded_simps)
  qed
qed

text \<open>
  C5: the code at the failing inputs. For every world, a video upload is answered
  successfully with a result of type \<open>video\<close> whose \<open>videoAnalysis\<close> has no
  \<open>temporalAnalysis\<close> and whose \<open>frameAnalysis\<close> has none of \<open>analyzedFrames\<close>,
  \<open>frameRate\<close>, \<open>keyFrames\<close>, all of which the shared \<open>VideoAnalysisResult\<close> requires;
  and an audio upload with a result of type \<open>audio\<close> whose \<open>audioAnalysis\<close> has neither
  \<open>synthesisIndicators\<close> nor \<open>technicalMetrics\<close> nor
  \<open>voiceCharacteristics.emotionStability\<close>, which \<open>AudioAnalysisResult\<close> requires. The
  top-level members the claim lists are present (lemma \<open>analysis_result_top_level\<close>).
\<close>

theorem video_audio_results_miss_declared_members:
  "succeeded (analysis_response w (example_file ''video/mp4''))
   \<and> result_field ''type'' w (example_file ''video/mp4'') = JStr ''video''
   \<and> field ''temporalAnalysis'' (result_field ''videoAnalysis'' w (example_file ''video/mp4''))
       = JUndefined
   \<and> field ''analyzedFrames''
        (field ''frameAnalysis'' (result_field ''videoAnalysis'' w (example_file ''video/mp4'')))
       = JUndefined
   \<and> field ''frameRate''
        (field ''frameAnalysis'' (result_field ''videoAnalysis'' w (example_file ''video/mp4'')))
       = JUndefined
   \<and> field ''keyFrames''
        (field ''frameAnalysis'' (result_field ''videoAnalysis'' w (example_file ''video/mp4'')))
       = JUndefined
   \<and> succeeded (analysis_response w (example_file ''audio/wav''))
   \<and> result_field ''type'' w (example_file ''audio/wav'') = JStr ''audio''
   \<and> field ''synthesisIndicators'' (result_field ''audioAnalysis'' w (example_file ''audio/wav''))
       = JUndefined
   \<and> field ''technicalMetrics'' (result_field ''audioAnalysis'' w (example_file ''audio/wav''))
       = JUndefined
   \<and> field ''emotionStability''
        (field ''voiceCharacteristics''
           (result_field ''audioAnalysis'' w (example_file ''audio/wav'')))
       = JUndefined"
proof -
  from handleAnalyze_video [OF example_file_category(2), of w] obtain c api where
    v: "succeeded (analysis_response w (example_file ''video/mp4''))"
    and vr: "result_of (analysis_response w (example_file ''video/mp4''))
              = video_analysisResult w (example_file ''video/mp4'') api"
    and vi: "video_response c (\<not> (sightengine_configured w \<and> vendor_success w)) api"
    by blast
  from handleAnalyze_audio [OF example_file_category(3), of w] obtain api' where
    a: "succeeded (analysis_response w (example_file ''audio/wav''))"
    and ar: "result_of (analysis_response w (example_file ''audio/wav''))
              = audio_analysisResult w (example_file ''audio/wav'') api'"
    and ai: "audio_response (audio_confidence (random w)) (random w 0 > 0.5) True api'"
    by blast
  from v vr a ar show ?thesis
    by (simp add: result_field_def video_analysisResult_def audio_analysisResult_def
        video_response_shape [OF vi] audio_response_shape [OF ai])
qed

end
